theory Spec2Isabelle
  imports Complex_Main "HOL-Library.Log_Nat"
begin

section \<open>Floating-point values\<close>

text \<open>
  The program computes with IEEE-754 binary64 numbers (Python \<^verbatim>\<open>float\<close>, numpy
  \<^verbatim>\<open>float64\<close>, JavaScript \<^verbatim>\<open>Number\<close>). A double is its exact value, a real number, or
  one of the three special values; every operation rounds its exact result to the
  nearest double, ties to even, with gradual underflow and overflow to infinity. The
  sign of zero is not modelled. A division by zero or an invalid operation yields a
  special value, as it does in numpy and JavaScript (neither raises).
\<close>

datatype npfloat = Fin real | PInf | NInf | NaN

text \<open>Rounding a real to the nearest integer, a tie going to the even one.\<close>

definition rne :: "real \<Rightarrow> int" where
  "rne m = (let f = \<lfloor>m\<rfloor>; r = m - of_int f
            in if r < 1 / 2 then f else if 1 / 2 < r then f + 1
               else if even f then f else f + 1)"

text \<open>The binary exponent \<open>\<lfloor>log\<^sub>2 \<bar>x\<bar>\<rfloor>\<close> of a number other than zero.\<close>

definition expo :: "real \<Rightarrow> int" where
  "expo x = (if 1 \<le> \<bar>x\<bar> then bitlen \<lfloor>\<bar>x\<bar>\<rfloor> - 1 else - bitlen (\<lceil>1 / \<bar>x\<bar>\<rceil> - 1))"

text \<open>
  The double nearest to a real: 53 significant bits, no bit below \<open>2\<^sup>-\<^sup>1\<^sup>0\<^sup>7\<^sup>4\<close>, infinity
  from \<open>2\<^sup>1\<^sup>0\<^sup>2\<^sup>4\<close> on. It is also the value of a decimal literal of the source.
\<close>

definition round64 :: "real \<Rightarrow> npfloat" where
  "round64 x =
     (if x = 0 then Fin 0
      else let q = max (expo x - 52) (- 1074);
               y = of_int (rne (x / 2 powi q)) * 2 powi q
           in if 2 ^ 1024 \<le> \<bar>y\<bar> then (if 0 < y then PInf else NInf) else Fin y)"

fun np_sgn :: "npfloat \<Rightarrow> int" where
  "np_sgn (Fin a) = (if a = 0 then 0 else if 0 < a then 1 else -1)"
| "np_sgn PInf = 1"
| "np_sgn NInf = -1"
| "np_sgn NaN = 0"

fun np_neg :: "npfloat \<Rightarrow> npfloat" where
  "np_neg (Fin a) = Fin (- a)"
| "np_neg PInf = NInf"
| "np_neg NInf = PInf"
| "np_neg NaN = NaN"

fun np_add :: "npfloat \<Rightarrow> npfloat \<Rightarrow> npfloat" where
  "np_add NaN y = NaN"
| "np_add x NaN = NaN"
| "np_add (Fin a) (Fin b) = round64 (a + b)"
| "np_add PInf NInf = NaN"
| "np_add NInf PInf = NaN"
| "np_add PInf y = PInf"
| "np_add x PInf = PInf"
| "np_add NInf y = NInf"
| "np_add x NInf = NInf"

definition np_sub :: "npfloat \<Rightarrow> npfloat \<Rightarrow> npfloat" where
  "np_sub x y = np_add x (np_neg y)"

fun np_mul :: "npfloat \<Rightarrow> npfloat \<Rightarrow> npfloat" where
  "np_mul NaN y = NaN"
| "np_mul x NaN = NaN"
| "np_mul (Fin a) (Fin b) = round64 (a * b)"
| "np_mul x y =
     (let s = np_sgn x * np_sgn y
      in if s = 0 then NaN else if 0 < s then PInf else NInf)"

fun np_div :: "npfloat \<Rightarrow> npfloat \<Rightarrow> npfloat" where
  "np_div NaN y = NaN"
| "np_div x NaN = NaN"
| "np_div (Fin a) (Fin b) =
     (if b \<noteq> 0 then round64 (a / b)
      else if a = 0 then NaN
      else if 0 < a then PInf else NInf)"
| "np_div (Fin a) y = Fin 0"
| "np_div x (Fin b) =
     (if 0 \<le> np_sgn x * (if 0 \<le> b then 1 else -1) then PInf else NInf)"
| "np_div x y = NaN"

fun np_sqrt :: "npfloat \<Rightarrow> npfloat" where
  "np_sqrt (Fin a) = (if a < 0 then NaN else round64 (sqrt a))"
| "np_sqrt PInf = PInf"
| "np_sqrt NInf = NaN"
| "np_sqrt NaN = NaN"

fun np_le :: "npfloat \<Rightarrow> npfloat \<Rightarrow> bool" where
  "np_le NaN y = False"
| "np_le x NaN = False"
| "np_le (Fin a) (Fin b) = (a \<le> b)"
| "np_le NInf y = True"
| "np_le x PInf = True"
| "np_le x y = False"

text \<open>
  \<^verbatim>\<open>base ** exponent\<close> for a finite exponent (numpy \<^verbatim>\<open>power\<close>, JavaScript
  \<^verbatim>\<open>Math.pow\<close>), taken to be correctly rounded; for the exponent 2 it is the rounded
  product \<open>base * base\<close> that numpy computes. A zero base with a negative exponent gives
  infinity, a negative base with a fractional exponent NaN.
\<close>

fun np_power :: "npfloat \<Rightarrow> real \<Rightarrow> npfloat" where
  "np_power (Fin b) p =
     (if 0 < b then round64 (b powr p)
      else if b = 0 then (if 0 < p then Fin 0 else if p = 0 then Fin 1 else PInf)
      else if p = of_int \<lfloor>p\<rfloor>
        then round64 (if 0 \<le> \<lfloor>p\<rfloor> then b ^ nat \<lfloor>p\<rfloor> else 1 / b ^ nat (- \<lfloor>p\<rfloor>))
      else NaN)"
| "np_power PInf p = (if 0 < p then PInf else if p = 0 then Fin 1 else Fin 0)"
| "np_power NInf p =
     (if p = 0 then Fin 1 else if p < 0 then Fin 0
      else if p = of_int \<lfloor>p\<rfloor> \<and> odd \<lfloor>p\<rfloor> then NInf else PInf)"
| "np_power NaN p = (if p = 0 then Fin 1 else NaN)"

text \<open>
  \<^verbatim>\<open>np.sum\<close> of a one-dimensional array, from \<open>0.0\<close> and from left to right. That is
  the order in which numpy adds fewer than 8 numbers; longer arrays it adds in eight
  interleaved partial sums, an order this definition does not follow.
\<close>

definition np_sum :: "npfloat list \<Rightarrow> npfloat" where
  "np_sum xs = fold (\<lambda>x acc. np_add acc x) xs (Fin 0)"

text \<open>
  \<^verbatim>\<open>np.finfo(float).eps\<close> and JavaScript's \<^verbatim>\<open>Number.EPSILON\<close>: the machine epsilon
  \<open>2\<^sup>-\<^sup>5\<^sup>2\<close> of the binary64 format.
\<close>

definition finfo_eps :: real where
  "finfo_eps = 1 / 2 ^ 52"

text \<open>
  The positive values of the IEEE-754 binary64 format, by exponent field \<open>e\<close>
  (\<open>0 \<le> e < 2047\<close>) and fraction field \<open>m\<close> (\<open>m < 2\<^sup>5\<^sup>2\<close>): subnormal when \<open>e = 0\<close>.
\<close>

definition binary64_value :: "nat \<Rightarrow> nat \<Rightarrow> real" where
  "binary64_value e m =
     (if e = 0 then real m / 2 ^ 1074
      else real (2 ^ 52 + m) * 2 ^ (e - 1) / 2 ^ 1074)"

section \<open>Samples\<close>

text \<open>
  A row of the station data frame, with the columns the interpolation reads. The frame
  reaches the interpolation after \<^verbatim>\<open>fetch_latest_pm25\<close> has dropped every row with a
  missing coordinate or value, so the three columns hold finite numbers. The data frame
  is the list of its rows.
\<close>

record sample =
  lon :: real
  lat :: real
  "value" :: real

section \<open>Inverse distance weighting (interpolate.py)\<close>

text \<open>
  The four array statements that \<^verbatim>\<open>interpolate_idw_point\<close> (lines 74 to 77) and the loop
  body of \<^verbatim>\<open>interpolate_idw\<close> (lines 43 to 52) both consist of, one definition each.
\<close>

text \<open>\<^verbatim>\<open>x ** 2\<close> on an array: numpy multiplies each element by itself.\<close>

definition np_square :: "npfloat \<Rightarrow> npfloat" where
  "np_square x = np_mul x x"

text \<open>\<^verbatim>\<open>np.sqrt((points[:, 0] - query_lon)**2 + (points[:, 1] - query_lat)**2)\<close>\<close>

definition np_dists :: "sample list \<Rightarrow> npfloat \<Rightarrow> npfloat \<Rightarrow> npfloat list" where
  "np_dists data query_lon query_lat =
     map (\<lambda>s. np_sqrt (np_add (np_square (np_sub (Fin (lon s)) query_lon))
                              (np_square (np_sub (Fin (lat s)) query_lat)))) data"

text \<open>\<^verbatim>\<open>dists[dists == 0] = np.finfo(float).eps\<close>\<close>

definition replace_zero :: "npfloat list \<Rightarrow> npfloat list" where
  "replace_zero dists = map (\<lambda>d. if d = Fin 0 then Fin finfo_eps else d) dists"

text \<open>\<^verbatim>\<open>weights = 1.0 / (dists ** power)\<close>\<close>

definition idw_weights :: "npfloat list \<Rightarrow> real \<Rightarrow> npfloat list" where
  "idw_weights dists pwr = map (\<lambda>d. np_div (Fin 1) (np_power d pwr)) dists"

text \<open>\<^verbatim>\<open>np.sum(weights * values) / np.sum(weights)\<close>\<close>

definition weighted_average :: "npfloat list \<Rightarrow> real list \<Rightarrow> npfloat" where
  "weighted_average weights vals =
     np_div (np_sum (map (\<lambda>(w, v). np_mul w (Fin v)) (zip weights vals))) (np_sum weights)"

definition interpolate_idw_point ::
  "sample list \<Rightarrow> npfloat \<Rightarrow> npfloat \<Rightarrow> real \<Rightarrow> npfloat" where
  "interpolate_idw_point data query_lon query_lat pwr =
     (if data = [] \<or> length data < 3 then NaN
      else
        let vals = map sample.value data;
            dists = np_dists data query_lon query_lat;
            dists = replace_zero dists;
            weights = idw_weights dists pwr
        in weighted_average weights vals)"

subsection \<open>The grid interpolator\<close>

text \<open>
  \<^verbatim>\<open>np.arange(start, stop, step)\<close> on doubles. The length is the ceiling of the rounded
  quotient \<open>(stop - start) / step\<close>; numpy raises when the quotient is NaN or infinite (a
  zero step) or the length exceeds the index type, and takes one element when a
  quotient of a non-zero difference has underflowed to zero. The first element is
  \<open>start\<close>, the second \<open>start + step\<close>, and element \<open>i\<close> is \<open>start + i * delta\<close> with
  \<open>delta = (start + step) - start\<close>, each operation rounded.
\<close>

datatype np_error = ArangeError

definition arange_length :: "npfloat \<Rightarrow> npfloat \<Rightarrow> npfloat \<Rightarrow> np_error + nat" where
  "arange_length start stop step =
     (let delta = np_sub stop start
      in case np_div delta step of
           Fin v \<Rightarrow>
             if v = 0 \<and> delta \<noteq> Fin 0
               then Inr (if 0 < np_sgn delta * np_sgn step then 1 else 0)
             else if \<lceil>v\<rceil> < 2 ^ 63 then Inr (nat \<lceil>v\<rceil>)
             else Inl ArangeError
         | _ \<Rightarrow> Inl ArangeError)"

definition arange_item :: "npfloat \<Rightarrow> npfloat \<Rightarrow> nat \<Rightarrow> npfloat" where
  "arange_item start step i =
     (if i = 0 then start
      else if i = 1 then np_add start step
      else np_add start (np_mul (round64 (real i)) (np_sub (np_add start step) start)))"

definition np_arange :: "npfloat \<Rightarrow> npfloat \<Rightarrow> npfloat \<Rightarrow> np_error + npfloat list" where
  "np_arange start stop step =
     (case arange_length start stop step of
        Inl e \<Rightarrow> Inl e
      | Inr n \<Rightarrow> Inr (map (arange_item start step) [0..<n]))"

text \<open>
  \<^verbatim>\<open>np.meshgrid(lons, lats)\<close>: two arrays of \<open>len(lats)\<close> rows and \<open>len(lons)\<close> columns. A
  two-dimensional array is the list of its rows.
\<close>

definition meshgrid ::
  "npfloat list \<Rightarrow> npfloat list \<Rightarrow> npfloat list list \<times> npfloat list list" where
  "meshgrid lons lats =
     (replicate (length lats) lons, map (\<lambda>y. replicate (length lons) y) lats)"

text \<open>\<^verbatim>\<open>np.full_like(grid_lon, np.nan)\<close>\<close>

definition full_like_nan :: "npfloat list list \<Rightarrow> npfloat list list" where
  "full_like_nan g = map (map (\<lambda>_. NaN)) g"

text \<open>
  \<^verbatim>\<open>a.shape[0]\<close> and \<^verbatim>\<open>a.shape[1]\<close>. An array without rows is given no columns here;
  the loop below then has no iteration in either reading.
\<close>

definition shape0 :: "'a list list \<Rightarrow> nat" where
  "shape0 a = length a"

definition shape1 :: "'a list list \<Rightarrow> nat" where
  "shape1 a = (case a of [] \<Rightarrow> 0 | r # _ \<Rightarrow> length r)"

text \<open>The body of the inner loop (lines 39 to 52), on the value mesh built so far.\<close>

definition idw_cell ::
  "sample list \<Rightarrow> real list \<Rightarrow> real \<Rightarrow> npfloat list list \<Rightarrow> npfloat list list \<Rightarrow>
   nat \<Rightarrow> nat \<Rightarrow> npfloat list list \<Rightarrow> npfloat list list" where
  "idw_cell data vals pwr grid_lon grid_lat i j grid_values =
     (let query_lon = grid_lon ! i ! j;
          query_lat = grid_lat ! i ! j;
          dists = np_dists data query_lon query_lat;
          dists = replace_zero dists;
          weights = idw_weights dists pwr
      in grid_values[i := (grid_values ! i)[j := weighted_average weights vals]])"

text \<open>The two nested loops (lines 37 to 52), from the mesh \<open>grid_values\<close>.\<close>

definition idw_loops ::
  "sample list \<Rightarrow> real list \<Rightarrow> real \<Rightarrow> npfloat list list \<Rightarrow> npfloat list list \<Rightarrow>
   npfloat list list \<Rightarrow> npfloat list list" where
  "idw_loops data vals pwr grid_lon grid_lat grid_values =
     fold (\<lambda>i gv.
       fold (\<lambda>j gv'. idw_cell data vals pwr grid_lon grid_lat i j gv')
         [0..<shape1 grid_lon] gv)
       [0..<shape0 grid_lat] grid_values"

text \<open>
  \<^verbatim>\<open>interpolate_idw\<close> returns the triple of meshes, or the triple of \<^verbatim>\<open>None\<close>s, which
  is \<open>None\<close> here.
\<close>

definition interpolate_idw ::
  "sample list \<Rightarrow> npfloat \<Rightarrow> real \<Rightarrow>
   np_error + (npfloat list list \<times> npfloat list list \<times> npfloat list list) option" where
  "interpolate_idw data grid_resolution pwr =
     (if data = [] \<or> length data < 3 then Inr None
      else
        let lon_min = np_sub (Fin (Min (set (map lon data)))) (round64 0.1);
            lon_max = np_add (Fin (Max (set (map lon data)))) (round64 0.1);
            lat_min = np_sub (Fin (Min (set (map lat data)))) (round64 0.1);
            lat_max = np_add (Fin (Max (set (map lat data)))) (round64 0.1)
        in case np_arange lon_min lon_max grid_resolution of
             Inl e \<Rightarrow> Inl e
           | Inr lons \<Rightarrow>
          (case np_arange lat_min lat_max grid_resolution of
             Inl e \<Rightarrow> Inl e
           | Inr lats \<Rightarrow>
             let (grid_lon, grid_lat) = meshgrid lons lats;
                 vals = map sample.value data;
                 grid_values = full_like_nan grid_lon;
                 grid_values = idw_loops data vals pwr grid_lon grid_lat grid_values
             in Inr (Some (grid_lon, grid_lat, grid_values))))"

section \<open>The classifier (app.py)\<close>

text \<open>
  \<^verbatim>\<open>pm25_to_aqi\<close> accepts any Python object. \<open>PyObject\<close> stands for an object that is
  neither a number nor a string (a list, a dict). The exceptions are those that
  \<^verbatim>\<open>float\<close> and \<^verbatim>\<open>int\<close> raise.
\<close>

datatype pyval = PyNone | PyFloat npfloat | PyInt int | PyStr string | PyObject

datatype pyexc = ValueError | TypeError | OverflowError

text \<open>
  \<^verbatim>\<open>float(x)\<close>. Parsing a string is the interpreter's: \<open>parse s\<close> is the double that
  \<^verbatim>\<open>float\<close> reads from \<open>s\<close>, or \<open>None\<close> when it raises \<^verbatim>\<open>ValueError\<close>. An integer is
  rounded to the nearest double; one that rounds beyond the largest double raises
  \<^verbatim>\<open>OverflowError\<close>.
\<close>

fun py_float :: "(string \<Rightarrow> npfloat option) \<Rightarrow> pyval \<Rightarrow> pyexc + npfloat" where
  "py_float parse PyNone = Inl TypeError"
| "py_float parse (PyFloat f) = Inr f"
| "py_float parse (PyInt n) =
     (case round64 (of_int n) of Fin y \<Rightarrow> Inr (Fin y) | _ \<Rightarrow> Inl OverflowError)"
| "py_float parse (PyStr s) = (case parse s of None \<Rightarrow> Inl ValueError | Some f \<Rightarrow> Inr f)"
| "py_float parse PyObject = Inl TypeError"

text \<open>\<^verbatim>\<open>int(x)\<close> on a double truncates toward zero and rejects the special values.\<close>

fun py_int :: "npfloat \<Rightarrow> pyexc + int" where
  "py_int (Fin x) = Inr (if 0 \<le> x then \<lfloor>x\<rfloor> else \<lceil>x\<rceil>)"
| "py_int NaN = Inl ValueError"
| "py_int PInf = Inl OverflowError"
| "py_int NInf = Inl OverflowError"

text \<open>
  The statements of the \<^verbatim>\<open>try\<close> block after \<^verbatim>\<open>pm25 = float(pm25)\<close>. A literal is the
  double nearest to it, and \<^verbatim>\<open>/\<close>, \<^verbatim>\<open>*\<close>, \<^verbatim>\<open>-\<close> and \<^verbatim>\<open>+\<close> round.
\<close>

definition aqi_branches :: "npfloat \<Rightarrow> pyexc + int" where
  "aqi_branches pm25 =
     (if np_le pm25 (round64 12) then
        py_int (np_mul (np_div (round64 50) (round64 12)) pm25)
      else if np_le pm25 (round64 35.4) then
        py_int (np_add (round64 50)
          (np_mul (np_div (round64 50) (round64 23.4)) (np_sub pm25 (round64 12.1))))
      else if np_le pm25 (round64 55.4) then
        py_int (np_add (round64 100)
          (np_mul (np_div (round64 50) (round64 20)) (np_sub pm25 (round64 35.5))))
      else if np_le pm25 (round64 150.4) then
        py_int (np_add (round64 150)
          (np_mul (np_div (round64 50) (round64 95)) (np_sub pm25 (round64 55.5))))
      else Inr 201)"

text \<open>
  \<^verbatim>\<open>pm25_to_aqi\<close>: \<^verbatim>\<open>except (ValueError, TypeError)\<close> turns these two into the score 0;
  any other exception reaches the caller.
\<close>

definition pm25_to_aqi :: "(string \<Rightarrow> npfloat option) \<Rightarrow> pyval \<Rightarrow> pyexc + int" where
  "pm25_to_aqi parse pm25 =
     (case (case py_float parse pm25 of Inl e \<Rightarrow> Inl e | Inr f \<Rightarrow> aqi_branches f) of
        Inl ValueError \<Rightarrow> Inr 0
      | Inl TypeError \<Rightarrow> Inr 0
      | Inl e \<Rightarrow> Inl e
      | Inr aqi \<Rightarrow> Inr aqi)"

text \<open>
  The four messages of \<^verbatim>\<open>get_aqi_alert\<close>, named by their first words: "Good",
  "Moderate", "Unhealthy for Sensitive" and "Unhealthy".
\<close>

datatype alert = Good | Moderate | Unhealthy_for_Sensitive | Unhealthy

definition get_aqi_alert :: "real \<Rightarrow> alert" where
  "get_aqi_alert aqi =
     (if aqi \<le> 50 then Good
      else if aqi \<le> 100 then Moderate
      else if aqi \<le> 150 then Unhealthy_for_Sensitive
      else Unhealthy)"

subsection \<open>The click handler embedded in the page (js\_code)\<close>

text \<open>\<^verbatim>\<open>Math.round\<close>: the nearest integer, a tie going up; special values unchanged.\<close>

fun js_round :: "npfloat \<Rightarrow> npfloat" where
  "js_round (Fin x) = Fin (of_int \<lfloor>x + 1 / 2\<rfloor>)"
| "js_round x = x"

text \<open>One iteration of the loop over the stations; \<^verbatim>\<open>power\<close> is the constant \<open>2.0\<close>.\<close>

definition js_station ::
  "npfloat \<Rightarrow> npfloat \<Rightarrow> sample \<Rightarrow> npfloat \<times> npfloat \<Rightarrow> npfloat \<times> npfloat" where
  "js_station lat' lng s acc =
     (let (sum_weights, sum_weighted_values) = acc;
          dist = np_sqrt (np_add (np_power (np_sub (Fin (lon s)) lng) 2)
                                 (np_power (np_sub (Fin (lat s)) lat') 2));
          dist = (if dist = Fin 0 then Fin finfo_eps else dist);
          weight = np_div (Fin 1) (np_power dist 2)
      in (np_add sum_weights weight,
          np_add sum_weighted_values (np_mul weight (Fin (sample.value s)))))"

definition js_pm25 :: "sample list \<Rightarrow> npfloat \<Rightarrow> npfloat \<Rightarrow> npfloat" where
  "js_pm25 stations lat' lng =
     (let (sum_weights, sum_weighted_values) =
            fold (js_station lat' lng) stations (Fin 0, Fin 0)
      in np_div sum_weighted_values sum_weights)"

definition js_aqi :: "npfloat \<Rightarrow> npfloat" where
  "js_aqi pm25 =
     (if np_le pm25 (round64 12) then
        js_round (np_mul (np_div (round64 50) (round64 12)) pm25)
      else if np_le pm25 (round64 35.4) then
        js_round (np_add (round64 50)
          (np_mul (np_div (round64 50) (round64 23.4)) (np_sub pm25 (round64 12.1))))
      else if np_le pm25 (round64 55.4) then
        js_round (np_add (round64 100)
          (np_mul (np_div (round64 50) (round64 20)) (np_sub pm25 (round64 35.5))))
      else if np_le pm25 (round64 150.4) then
        js_round (np_add (round64 150)
          (np_mul (np_div (round64 50) (round64 95)) (np_sub pm25 (round64 55.5))))
      else Fin 201)"

definition js_alert :: "npfloat \<Rightarrow> alert" where
  "js_alert aqi =
     (if np_le aqi (round64 50) then Good
      else if np_le aqi (round64 100) then Moderate
      else if np_le aqi (round64 150) then Unhealthy_for_Sensitive
      else Unhealthy)"

section \<open>Auxiliary definitions\<close>

text \<open>
  The value that both estimators compute for a query point, and the property of a
  weight of being a non-negative number or positive infinity; they name what the proofs
  below reason about.
\<close>

definition cell_value :: "sample list \<Rightarrow> real \<Rightarrow> npfloat \<Rightarrow> npfloat \<Rightarrow> npfloat" where
  "cell_value data pwr x y =
     weighted_average (idw_weights (replace_zero (np_dists data x y)) pwr)
       (map sample.value data)"


text \<open>
  Station sets for the concrete evaluations. \<open>d35_4\<close> is the double that the literal
  \<^verbatim>\<open>35.4\<close> denotes. The first set is the three stations with the values 10, 40 and 60;
  in the second all three report 35.4; the third has its stations at the distances 2,
  3 and 13 from the origin; in the last the first station is \<open>2\<^sup>-\<^sup>5\<^sup>3\<^sup>2\<close> degrees east of
  the origin.
\<close>

definition d35_4 :: real where
  "d35_4 = 4982107087778611 / 140737488355328"

definition example_stations :: "sample list" where
  "example_stations =
     [\<lparr>lon = 0, lat = 0, value = 10\<rparr>, \<lparr>lon = 1, lat = 0, value = 40\<rparr>,
      \<lparr>lon = 0, lat = 1, value = 60\<rparr>]"

definition uniform_stations :: "sample list" where
  "uniform_stations =
     [\<lparr>lon = 0, lat = 0, value = d35_4\<rparr>, \<lparr>lon = 1, lat = 0, value = d35_4\<rparr>,
      \<lparr>lon = 0, lat = 1, value = d35_4\<rparr>]"


definition near_stations :: "sample list" where
  "near_stations =
     [\<lparr>lon = 1 / 2 ^ 532, lat = 0, value = 10\<rparr>, \<lparr>lon = 1, lat = 0, value = 40\<rparr>,
      \<lparr>lon = 0, lat = 1, value = 60\<rparr>]"

text \<open>
  What a distance is once zero has been replaced: a double of at least \<open>2\<^sup>-\<^sup>5\<^sup>3\<^sup>7\<close>, the
  square root of the smallest positive double, or positive infinity, or NaN.
\<close>

fun far_from_zero :: "npfloat \<Rightarrow> bool" where
  "far_from_zero (Fin x) = (2 powi (- 537) \<le> x)"
| "far_from_zero PInf = True"
| "far_from_zero NInf = False"
| "far_from_zero NaN = True"

section \<open>Rounding to the nearest double\<close>

text \<open>
  The facts \<open>r64\<close> are the roundings that the evaluations of this theory perform, one
  lemma for each.
\<close>

named_theorems r64

lemma expo_eqI:
  assumes "2 powi e \<le> \<bar>x\<bar>" and "\<bar>x\<bar> < 2 powi (e + 1)"
  shows "expo x = e"
proof (cases "1 \<le> \<bar>x\<bar>")
  case True
  define a where "a = \<bar>x\<bar>"
  have e0: "0 \<le> e"
  proof (rule ccontr)
    assume "\<not> 0 \<le> e"
    then have "e + 1 \<le> 0" by simp
    then have "(2::real) powi (e + 1) \<le> 2 powi 0" by (intro power_int_increasing) auto
    with assms(2) True show False by simp
  qed
  have fl: "0 < \<lfloor>a\<rfloor>" using True by (simp add: a_def)
  have lo: "2 powi e \<le> real_of_int \<lfloor>a\<rfloor>"
  proof -
    have p: "(2::real) powi e = real_of_int (2 ^ nat e)" using e0 by (simp add: power_int_def)
    with assms(1) have "real_of_int (2 ^ nat e) \<le> a" by (simp only: a_def)
    then have "2 ^ nat e \<le> \<lfloor>a\<rfloor>" by (simp only: le_floor_iff)
    then have "real_of_int (2 ^ nat e) \<le> real_of_int \<lfloor>a\<rfloor>" by (simp only: of_int_le_iff)
    with p show ?thesis by (simp only:)
  qed
  have hi: "real_of_int \<lfloor>a\<rfloor> < 2 powi (e + 1)"
    using assms(2) by (metis a_def of_int_floor_le order_le_less_trans)
  have p1: "2 powr real_of_int e = (2::real) powi e"
    by (rule powr_real_of_int') simp_all
  have p3: "2 powr real_of_int (e + 1) = (2::real) powi (e + 1)"
    by (rule powr_real_of_int') simp_all
  have "real_of_int e + 1 = real_of_int (e + 1)" by simp
  with p3 have p2: "2 powr (real_of_int e + 1) = (2::real) powi (e + 1)"
    by (simp only:)
  have fr: "0 < real_of_int \<lfloor>a\<rfloor>" using fl by simp
  have two: "(1::real) < 2" by simp
  have "2 powr real_of_int e \<le> real_of_int \<lfloor>a\<rfloor>
      \<and> real_of_int \<lfloor>a\<rfloor> < 2 powr real_of_int (e + 1)"
    using lo hi by (simp only: p1 p3)
  then have "\<lfloor>log 2 (real_of_int \<lfloor>a\<rfloor>)\<rfloor> = e"
    by (rule floor_log_eq_powr_iff [OF fr two, THEN iffD2])
  with True fl show ?thesis by (simp add: expo_def bitlen_alt_def a_def)
next
  case False
  define a where "a = \<bar>x\<bar>"
  have "(0::real) < 2 powi e" by simp
  with assms(1) have a0: "0 < a" unfolding a_def by linarith
  have a1: "a < 1" using False by (simp add: a_def)
  have e1: "e + 1 \<le> 0"
  proof (rule ccontr)
    assume "\<not> e + 1 \<le> 0"
    then have "0 \<le> e" by simp
    then have "(2::real) powi 0 \<le> 2 powi e" by (intro power_int_increasing) auto
    with assms(1) a1 show False by (simp add: a_def)
  qed
  define k where "k = nat (- e)"
  have k: "1 \<le> k" "e = - int k" using e1 by (simp_all add: k_def)
  have pe: "(2::real) powi e = 1 / 2 ^ k" "(2::real) powi (e + 1) = 1 / 2 ^ (k - 1)"
    using k by (simp_all add: power_int_def field_simps nat_diff_distrib')
  have up: "1 / a \<le> 2 ^ k" using assms(1) a0 unfolding pe a_def [symmetric]
    by (simp add: field_simps)
  have dn: "2 ^ (k - 1) < 1 / a" using assms(2) a0 unfolding pe a_def [symmetric]
    by (simp add: field_simps)
  define c where "c = \<lceil>1 / a\<rceil>"
  have c_up: "c \<le> 2 ^ k" using up by (simp add: c_def ceiling_le_iff)
  have c_dn: "2 ^ (k - 1) < c" using dn by (simp add: c_def less_ceiling_iff)
  have pos: "0 < c - 1" using c_dn by (smt (verit) one_le_power)
  have lo: "2 powr real_of_int (int k - 1) \<le> real_of_int (c - 1)"
  proof -
    have "(2::int) ^ (k - 1) \<le> c - 1" using c_dn by simp
    then have "real_of_int (2 ^ (k - 1)) \<le> real_of_int (c - 1)" by (rule of_int_le_iff [THEN iffD2])
    moreover have "2 powr real_of_int (int k - 1) = (2::real) ^ (k - 1)"
    proof -
      have "real_of_int (int k - 1) = real (k - 1)" using k(1) by simp
      then have "2 powr real_of_int (int k - 1) = (2::real) powr real (k - 1)" by (simp only:)
      also have "\<dots> = 2 ^ (k - 1)" by (rule powr_realpow) simp
      finally show ?thesis .
    qed
    ultimately show ?thesis by simp
  qed
  have hi: "real_of_int (c - 1) < 2 powr real_of_int (int k - 1 + 1)"
  proof -
    have "c - 1 < 2 ^ k" using c_up by simp
    then have "real_of_int (c - 1) < real_of_int (2 ^ k)" by (rule of_int_less_iff [THEN iffD2])
    moreover have "2 powr real_of_int (int k - 1 + 1) = (2::real) ^ k"
      using powr_realpow [of 2 k] by simp
    ultimately show ?thesis by simp
  qed
  have cr: "0 < real_of_int (c - 1)" using pos by simp
  have two: "(1::real) < 2" by simp
  from lo hi have "2 powr real_of_int (int k - 1) \<le> real_of_int (c - 1)
      \<and> real_of_int (c - 1) < 2 powr real_of_int (int k - 1 + 1)" by (rule conjI)
  then have "\<lfloor>log 2 (real_of_int (c - 1))\<rfloor> = int k - 1"
    by (rule floor_log_eq_powr_iff [OF cr two, THEN iffD2])
  with False pos k show ?thesis
    by (simp add: expo_def bitlen_alt_def a_def c_def)
qed

lemma round64_eqI:
  assumes "2 powi e \<le> \<bar>x\<bar>" and "\<bar>x\<bar> < 2 powi (e + 1)"
    and "q = max (e - 52) (- 1074)"
    and "rne (x / 2 powi q) = n"
    and "\<bar>real_of_int n * 2 powi q\<bar> < 2 ^ 1024"
  shows "round64 x = Fin (real_of_int n * 2 powi q)"
proof -
  have "x \<noteq> 0"
  proof
    assume "x = 0"
    with assms(1) have "(2::real) powi e \<le> 0" by simp
    moreover have "(0::real) < 2 powi e" by simp
    ultimately show False by linarith
  qed
  with assms expo_eqI [OF assms(1,2)] show ?thesis
    by (simp add: round64_def Let_def)
qed

lemma expo_bounds:
  assumes "x \<noteq> 0"
  shows "2 powi (expo x) \<le> \<bar>x\<bar>" and "\<bar>x\<bar> < 2 powi (expo x + 1)"
proof -
  define e where "e = \<lfloor>log 2 \<bar>x\<bar>\<rfloor>"
  have pos: "0 < \<bar>x\<bar>" using assms by simp
  have two: "(1::real) < 2" by simp
  have "\<lfloor>log 2 \<bar>x\<bar>\<rfloor> = e" by (simp only: e_def)
  then have b: "2 powr real_of_int e \<le> \<bar>x\<bar> \<and> \<bar>x\<bar> < 2 powr real_of_int (e + 1)"
    by (rule floor_log_eq_powr_iff [OF pos two, THEN iffD1])
  have p1: "2 powr real_of_int e = (2::real) powi e"
    by (rule powr_real_of_int') simp_all
  have p2: "2 powr real_of_int (e + 1) = (2::real) powi (e + 1)"
    by (rule powr_real_of_int') simp_all
  from b have lo: "2 powi e \<le> \<bar>x\<bar>" and hi: "\<bar>x\<bar> < 2 powi (e + 1)"
    by (simp_all only: p1 p2)
  have "expo x = e" by (rule expo_eqI [OF lo hi])
  with lo hi show "2 powi (expo x) \<le> \<bar>x\<bar>" and "\<bar>x\<bar> < 2 powi (expo x + 1)"
    by simp_all
qed

lemma rne_floor: "\<lfloor>m\<rfloor> \<le> rne m"
  by (simp add: rne_def Let_def)

lemma rne_ge:
  assumes "real_of_int N \<le> m"
  shows "N \<le> rne m"
proof -
  from assms have "N \<le> \<lfloor>m\<rfloor>" by (simp only: le_floor_iff)
  with rne_floor [of m] show ?thesis by linarith
qed


text \<open>Rounding never goes below a power of two that the number has reached.\<close>

lemma round64_ge_pow2:
  assumes "2 powi k \<le> x" and "- 1074 \<le> k"
  shows "round64 x = PInf \<or> (\<exists>y. round64 x = Fin y \<and> 2 powi k \<le> y)"
proof -
  have xpos: "0 < x" using assms(1) zero_less_power_int [of "2::real" k] by linarith
  then have x0: "x \<noteq> 0" and ax: "\<bar>x\<bar> = x" by simp_all
  define e where "e = expo x"
  define q where "q = max (e - 52) (- 1074)"
  have lo: "2 powi e \<le> x" and hi: "x < 2 powi (e + 1)"
    using expo_bounds [OF x0] by (simp_all add: e_def ax)
  have ke: "k \<le> e"
  proof (rule ccontr)
    assume "\<not> k \<le> e"
    then have "e + 1 \<le> k" by simp
    then have "(2::real) powi (e + 1) \<le> 2 powi k" by (intro power_int_increasing) auto
    with hi assms(1) show False by linarith
  qed
  define k' where "k' = max k q"
  have qk: "q \<le> k'" and kk: "k \<le> k'" by (simp_all add: k'_def)
  have k'e: "k' \<le> e" using ke assms(2) by (auto simp: k'_def q_def)
  have "(2::real) powi k' \<le> 2 powi e" using k'e by (intro power_int_increasing) auto
  with lo have xk': "2 powi k' \<le> x" by linarith
  define N :: int where "N = 2 ^ nat (k' - q)"
  have Nq: "real_of_int N * 2 powi q = 2 powi k'"
  proof -
    have "real_of_int N = 2 powi (k' - q)" using qk by (simp add: N_def power_int_def)
    then have "real_of_int N * 2 powi q = 2 powi (k' - q) * 2 powi q" by simp
    also have "\<dots> = 2 powi (k' - q + q)" by (rule power_int_add [symmetric]) simp
    finally show ?thesis by simp
  qed
  have q0: "(0::real) < 2 powi q" by simp
  have "real_of_int N \<le> x / 2 powi q"
    using xk' Nq q0 by (simp add: pos_le_divide_eq)
  then have "N \<le> rne (x / 2 powi q)" by (rule rne_ge)
  then have "real_of_int N * 2 powi q \<le> real_of_int (rne (x / 2 powi q)) * 2 powi q"
    using q0 by (simp add: mult_right_mono)
  then have y: "2 powi k' \<le> real_of_int (rne (x / 2 powi q)) * 2 powi q"
    by (simp only: Nq)
  have "(2::real) powi k \<le> 2 powi k'" using kk by (intro power_int_increasing) auto
  with y have yk: "2 powi k \<le> real_of_int (rne (x / 2 powi q)) * 2 powi q" by linarith
  then have yp: "0 < real_of_int (rne (x / 2 powi q)) * 2 powi q"
    using zero_less_power_int [of "2::real" k] by linarith
  show ?thesis
    using x0 yk yp unfolding round64_def Let_def q_def [symmetric, unfolded e_def] e_def [symmetric]
    by (auto simp: q_def e_def)
qed

text \<open>A double other than zero is at least the smallest subnormal in magnitude.\<close>

lemma round64_granular:
  assumes "round64 x = Fin y"
  shows "y = 0 \<or> 2 powi (- 1074) \<le> \<bar>y\<bar>"
proof (cases "x = 0")
  case True
  with assms show ?thesis by (simp add: round64_def)
next
  case False
  define q where "q = max (expo x - 52) (- 1074)"
  define n where "n = rne (x / 2 powi q)"
  have y: "y = real_of_int n * 2 powi q"
    using assms False by (auto simp: round64_def Let_def q_def n_def split: if_splits)
  show ?thesis
  proof (cases "n = 0")
    case True
    with y show ?thesis by simp
  next
    case False
    then have "1 \<le> \<bar>n\<bar>" by simp
    then have "1 \<le> \<bar>real_of_int n\<bar>" by (metis of_int_1_le_iff of_int_abs)
    moreover have "(0::real) \<le> 2 powi q" by simp
    ultimately have "1 * 2 powi q \<le> \<bar>real_of_int n\<bar> * 2 powi q"
      by (rule mult_right_mono)
    then have a: "2 powi q \<le> \<bar>real_of_int n\<bar> * 2 powi q" by (simp only: mult_1)
    have b: "(2::real) powi (- 1074) \<le> 2 powi q"
      by (intro power_int_increasing) (auto simp: q_def)
    have "\<bar>(2::real) powi q\<bar> = 2 powi q" by (rule abs_of_nonneg) simp
    then have c: "\<bar>y\<bar> = \<bar>real_of_int n\<bar> * 2 powi q" by (simp only: y abs_mult)
    from b a have "(2::real) powi (- 1074) \<le> \<bar>real_of_int n\<bar> * 2 powi q"
      by (rule order_trans)
    then have "2 powi (- 1074) \<le> \<bar>y\<bar>" by (simp only: c)
    then show ?thesis by (rule disjI2)
  qed
qed

lemma round64_infI:
  assumes "2 powi e \<le> \<bar>x\<bar>" and "\<bar>x\<bar> < 2 powi (e + 1)"
    and "q = max (e - 52) (- 1074)"
    and "rne (x / 2 powi q) = n"
    and "2 ^ 1024 \<le> \<bar>real_of_int n * 2 powi q\<bar>"
  shows "round64 x = (if 0 < real_of_int n * 2 powi q then PInf else NInf)"
proof -
  have "x \<noteq> 0"
  proof
    assume "x = 0"
    with assms(1) have "(2::real) powi e \<le> 0" by simp
    moreover have "(0::real) < 2 powi e" by simp
    ultimately show False by linarith
  qed
  with assms expo_eqI [OF assms(1,2)] show ?thesis
    by (simp add: round64_def Let_def)
qed

lemma round64_zero [simp]: "round64 0 = Fin 0"
  by (simp add: round64_def)

section \<open>Distances and weights\<close>


lemma np_add_range:
  "np_add x y = NaN \<or> np_add x y = PInf \<or> np_add x y = NInf \<or> (\<exists>z. np_add x y = round64 z)"
  by (cases x; cases y) auto

lemma sqrt_smallest: "sqrt (2 powi (- 1074)) = 2 powi (- 537)"
proof (rule real_sqrt_unique)
  have "(2::real) powi (- 537) * 2 powi (- 537) = 2 powi (- 537 + - 537)"
    by (rule power_int_add [symmetric]) simp
  then show "(2 powi (- 537))\<^sup>2 = (2::real) powi (- 1074)"
    by (simp only: power2_eq_square) simp
  show "(0::real) \<le> 2 powi (- 537)" by simp
qed

lemma np_sqrt_round64:
  "np_sqrt (round64 z) = NaN \<or> np_sqrt (round64 z) = Fin 0 \<or> np_sqrt (round64 z) = PInf
   \<or> (\<exists>x. np_sqrt (round64 z) = Fin x \<and> 2 powi (- 537) \<le> x)"
proof (cases "round64 z")
  case (Fin y)
  consider "y < 0" | "y = 0" | "0 < y" by linarith
  then show ?thesis
  proof cases
    case 1
    with Fin show ?thesis by simp
  next
    case 2
    with Fin show ?thesis by simp
  next
    case 3
    with round64_granular [OF Fin] have "2 powi (- 1074) \<le> y" by auto
    then have "sqrt (2 powi (- 1074)) \<le> sqrt y" by (simp only: real_sqrt_le_iff)
    then have "2 powi (- 537) \<le> sqrt y" by (simp only: sqrt_smallest)
    from round64_ge_pow2 [OF this] 3 Fin show ?thesis by auto
  qed
qed simp_all

lemma np_sqrt_np_add:
  "np_sqrt (np_add x y) = Fin 0 \<or> far_from_zero (np_sqrt (np_add x y))"
proof -
  from np_add_range [of x y]
  consider "np_add x y = NaN" | "np_add x y = PInf" | "np_add x y = NInf"
    | z where "np_add x y = round64 z" by blast
  then show ?thesis
  proof cases
    case 4
    with np_sqrt_round64 [of z] show ?thesis by auto
  qed simp_all
qed

lemma dists_range:
  "d \<in> set (np_dists data qx qy) \<Longrightarrow> d = Fin 0 \<or> far_from_zero d"
  using np_sqrt_np_add by (auto simp: np_dists_def)

lemma eps_far_from_zero: "far_from_zero (Fin finfo_eps)"
proof -
  have "(2::real) powi (- 537) \<le> 2 powi (- 52)" by (intro power_int_increasing) auto
  moreover have "(2::real) powi (- 52) = finfo_eps" by (simp add: finfo_eps_def)
  ultimately show ?thesis by simp
qed

lemma replaced_range:
  "d \<in> set (replace_zero (np_dists data qx qy)) \<Longrightarrow> far_from_zero d"
  using dists_range [of _ data qx qy] eps_far_from_zero
  by (auto simp: replace_zero_def)

lemma far_from_zero_not_zero: "far_from_zero d \<Longrightarrow> d \<noteq> Fin 0"
proof
  assume "far_from_zero d" and "d = Fin 0"
  then have "(2::real) powi (- 537) \<le> 0" by simp
  moreover have "(0::real) < 2 powi (- 537)" by simp
  ultimately show False by linarith
qed

lemma square_far_from_zero:
  assumes "far_from_zero d"
  shows "np_power d 2 \<noteq> Fin 0"
proof (cases d)
  case (Fin x)
  with assms have x: "2 powi (- 537) \<le> x" by simp
  have p: "(0::real) < 2 powi (- 537)" by simp
  with x have xpos: "0 < x" by linarith
  have "(2 powi (- 537)) * (2 powi (- 537)) \<le> x * x"
    using x p by (intro mult_mono) simp_all
  moreover have "(2::real) powi (- 537) * 2 powi (- 537) = 2 powi (- 537 + - 537)"
    by (rule power_int_add [symmetric]) simp
  ultimately have "2 powi (- 1074) \<le> x * x" by simp
  moreover have "x powr 2 = x * x" using xpos by (simp add: power2_eq_square)
  ultimately have "2 powi (- 1074) \<le> x powr 2" by simp
  from round64_ge_pow2 [OF this]
  have "round64 (x powr 2) = PInf \<or> (\<exists>y. round64 (x powr 2) = Fin y \<and> 2 powi (- 1074) \<le> y)"
    by simp
  moreover have "(0::real) < 2 powi (- 1074)" by simp
  ultimately have "round64 (x powr 2) \<noteq> Fin 0" by auto
  with Fin xpos show ?thesis by simp
next
  case NInf
  with assms show ?thesis by simp
qed simp_all








lemma power_far_from_zero:
  assumes "far_from_zero d" and "0 \<le> p" and "p \<le> 2"
  shows "np_power d p \<noteq> Fin 0"
proof (cases d)
  case (Fin x)
  with assms have x: "2 powi (- 537) \<le> x" by simp
  have pp: "(0::real) < 2 powi (- 537)" by simp
  with x have xpos: "0 < x" by linarith
  have low: "2 powi (- 1074) \<le> x powr p"
  proof (cases "x \<le> 1")
    case True
    have "(2 powi (- 537)) * (2 powi (- 537)) \<le> x * x"
      using x pp by (intro mult_mono) simp_all
    moreover have "(2::real) powi (- 537) * 2 powi (- 537) = 2 powi (- 537 + - 537)"
      by (rule power_int_add [symmetric]) simp
    ultimately have "2 powi (- 1074) \<le> x * x" by simp
    moreover have "x powr 2 = x * x" using xpos by (simp add: power2_eq_square)
    moreover have "x powr 2 \<le> x powr p"
      using assms(3) xpos True by (intro powr_mono') simp_all
    ultimately show ?thesis by linarith
  next
    case False
    then have "1 \<le> x powr p" using assms(2) by (intro ge_one_powr_ge_zero) simp_all
    moreover have "(2::real) powi (- 1074) \<le> 2 powi 0"
      by (intro power_int_increasing) simp_all
    ultimately show ?thesis by simp
  qed
  from round64_ge_pow2 [OF this]
  have "round64 (x powr p) = PInf \<or> (\<exists>y. round64 (x powr p) = Fin y \<and> 2 powi (- 1074) \<le> y)"
    by simp
  moreover have "(0::real) < 2 powi (- 1074)" by simp
  ultimately have "round64 (x powr p) \<noteq> Fin 0" by auto
  with Fin xpos show ?thesis by simp
next
  case NInf
  with assms show ?thesis by simp
qed (use assms in auto)

lemma replaced_nth:
  assumes "k < length data"
  shows "replace_zero (np_dists data qx qy) ! k
           = (if np_dists data qx qy ! k = Fin 0 then Fin finfo_eps else np_dists data qx qy ! k)"
    and "far_from_zero (replace_zero (np_dists data qx qy) ! k)"
proof -
  have len: "length (replace_zero (np_dists data qx qy)) = length data"
    by (simp add: replace_zero_def np_dists_def)
  show "replace_zero (np_dists data qx qy) ! k
           = (if np_dists data qx qy ! k = Fin 0 then Fin finfo_eps else np_dists data qx qy ! k)"
    using assms by (simp add: replace_zero_def np_dists_def)
  have "replace_zero (np_dists data qx qy) ! k \<in> set (replace_zero (np_dists data qx qy))"
    using assms len by simp
  then show "far_from_zero (replace_zero (np_dists data qx qy) ! k)"
    by (rule replaced_range)
qed


section \<open>The nested loops fill every cell\<close>

lemma row_loop_length: "length (fold (\<lambda>j r. r[j := f j]) [0..<n] row) = length row"
  by (induction n) simp_all

lemma row_loop_nth:
  "k < length row \<Longrightarrow>
   fold (\<lambda>j r. r[j := f j]) [0..<n] row ! k = (if k < n then f k else row ! k)"
  by (induction n) (auto simp: nth_list_update row_loop_length less_Suc_eq)

lemma inner_loop:
  "fold (\<lambda>j gv. gv[i := (gv ! i)[j := f j]]) [0..<n] g
     = g[i := fold (\<lambda>j r. r[j := f j]) [0..<n] (g ! i)]"
proof (induction n)
  case 0
  then show ?case by simp
next
  case (Suc n)
  show ?case
  proof (cases "i < length g")
    case True
    with Suc show ?thesis by simp
  next
    case False
    with Suc show ?thesis by (simp add: list_update_beyond)
  qed
qed

lemma outer_loop_length:
  "length (fold (\<lambda>i gv. gv[i := h i (gv ! i)]) [0..<n] g) = length g"
  by (induction n) simp_all

lemma outer_loop_nth:
  "k < length g \<Longrightarrow>
   fold (\<lambda>i gv. gv[i := h i (gv ! i)]) [0..<n] g ! k = (if k < n then h k (g ! k) else g ! k)"
  by (induction n) (auto simp: nth_list_update outer_loop_length less_Suc_eq)

lemma idw_cell_update:
  "idw_cell data (map sample.value data) pwr glon glat i j gv
     = gv[i := (gv ! i)[j := cell_value data pwr (glon ! i ! j) (glat ! i ! j)]]"
  by (simp add: idw_cell_def cell_value_def Let_def)

lemma idw_cell_fun:
  "idw_cell data (map sample.value data) pwr glon glat i
     = (\<lambda>j gv. gv[i := (gv ! i)[j := cell_value data pwr (glon ! i ! j) (glat ! i ! j)]])"
  by (intro ext) (rule idw_cell_update)

lemma loops_nth:
  fixes data pwr glon glat g
  defines "run \<equiv> idw_loops data (map sample.value data) pwr glon glat g"
  shows "length run = length g"
    and "i < length g \<Longrightarrow> length (run ! i) = length (g ! i)"
    and "i < length g \<Longrightarrow> i < shape0 glat \<Longrightarrow> j < length (g ! i) \<Longrightarrow> j < shape1 glon \<Longrightarrow>
         run ! i ! j = cell_value data pwr (glon ! i ! j) (glat ! i ! j)"
proof -
  let ?h = "\<lambda>i row. fold (\<lambda>j r. r[j := cell_value data pwr (glon ! i ! j) (glat ! i ! j)])
                      [0..<shape1 glon] row"
  have run: "run = fold (\<lambda>i gv. gv[i := ?h i (gv ! i)]) [0..<shape0 glat] g"
    unfolding run_def idw_loops_def idw_cell_fun inner_loop ..
  show "length run = length g"
    unfolding run by (rule outer_loop_length)
  show "length (run ! i) = length (g ! i)" if "i < length g"
    unfolding run using that by (simp add: outer_loop_nth [where h = ?h] row_loop_length)
  show "run ! i ! j = cell_value data pwr (glon ! i ! j) (glat ! i ! j)"
    if "i < length g" "i < shape0 glat" "j < length (g ! i)" "j < shape1 glon"
    unfolding run using that by (simp add: outer_loop_nth [where h = ?h] row_loop_nth)
qed

text \<open>
  From any mesh of the lattice's shape the loops produce the table of the computed
  values: nothing of the initial mesh is left.
\<close>

lemma loops_table:
  assumes "length g = shape0 glat" and "\<forall>i<length g. length (g ! i) = shape1 glon"
  shows "idw_loops data (map sample.value data) pwr glon glat g
         = map (\<lambda>i. map (\<lambda>j. cell_value data pwr (glon ! i ! j) (glat ! i ! j))
                  [0..<shape1 glon]) [0..<shape0 glat]"
proof (rule nth_equalityI)
  show "length (idw_loops data (map sample.value data) pwr glon glat g)
      = length (map (\<lambda>i. map (\<lambda>j. cell_value data pwr (glon ! i ! j) (glat ! i ! j))
                  [0..<shape1 glon]) [0..<shape0 glat])"
    using assms(1) by (simp add: loops_nth(1))
next
  fix i
  assume "i < length (idw_loops data (map sample.value data) pwr glon glat g)"
  then have i: "i < length g" by (simp add: loops_nth(1))
  with assms have i': "i < shape0 glat" and row: "length (g ! i) = shape1 glon" by simp_all
  show "idw_loops data (map sample.value data) pwr glon glat g ! i
      = map (\<lambda>i. map (\<lambda>j. cell_value data pwr (glon ! i ! j) (glat ! i ! j))
               [0..<shape1 glon]) [0..<shape0 glat] ! i"
  proof (rule nth_equalityI)
    show "length (idw_loops data (map sample.value data) pwr glon glat g ! i)
        = length (map (\<lambda>i. map (\<lambda>j. cell_value data pwr (glon ! i ! j) (glat ! i ! j))
                    [0..<shape1 glon]) [0..<shape0 glat] ! i)"
      using i i' row by (simp add: loops_nth(2))
  next
    fix j
    assume "j < length (idw_loops data (map sample.value data) pwr glon glat g ! i)"
    then have j: "j < shape1 glon" using i row by (simp add: loops_nth(2))
    then show "idw_loops data (map sample.value data) pwr glon glat g ! i ! j
        = map (\<lambda>i. map (\<lambda>j. cell_value data pwr (glon ! i ! j) (glat ! i ! j))
                 [0..<shape1 glon]) [0..<shape0 glat] ! i ! j"
      using i i' row by (simp add: loops_nth(3))
  qed
qed

section \<open>The lattice and the value mesh\<close>

lemma shape1_replicate: "shape1 (replicate n xs) = (if n = 0 then 0 else length xs)"
  by (cases n) (simp_all add: shape1_def)

lemma np_arange_cases:
  "(arange_length start stop step = Inl ArangeError \<and> np_arange start stop step = Inl ArangeError)
   \<or> (\<exists>n. arange_length start stop step = Inr n
          \<and> np_arange start stop step = Inr (map (arange_item start step) [0..<n]))"
proof (cases "arange_length start stop step")
  case (Inl e)
  then show ?thesis by (cases e) (simp add: np_arange_def)
next
  case (Inr n)
  then show ?thesis by (simp add: np_arange_def)
qed

lemma interpolate_idw_grid:
  fixes data :: "sample list" and r :: npfloat and p :: real
  assumes "3 \<le> length data"
  defines "lon_min \<equiv> np_sub (Fin (Min (set (map lon data)))) (round64 0.1)"
    and "lon_max \<equiv> np_add (Fin (Max (set (map lon data)))) (round64 0.1)"
    and "lat_min \<equiv> np_sub (Fin (Min (set (map lat data)))) (round64 0.1)"
    and "lat_max \<equiv> np_add (Fin (Max (set (map lat data)))) (round64 0.1)"
  shows "(interpolate_idw data r p = Inl ArangeError
          \<and> (arange_length lon_min lon_max r = Inl ArangeError
             \<or> arange_length lat_min lat_max r = Inl ArangeError))
       \<or> (\<exists>cols rows gv.
            arange_length lon_min lon_max r = Inr cols
          \<and> arange_length lat_min lat_max r = Inr rows
          \<and> interpolate_idw data r p =
              Inr (Some (replicate rows (map (arange_item lon_min r) [0..<cols]),
                         map (\<lambda>i. replicate cols (arange_item lat_min r i)) [0..<rows], gv))
          \<and> length gv = rows
          \<and> (\<forall>i<rows. length (gv ! i) = cols
                \<and> (\<forall>j<cols. gv ! i ! j =
                      cell_value data p (arange_item lon_min r j) (arange_item lat_min r i))))"
proof -
  have gate: "\<not> (data = [] \<or> length data < 3)"
    using assms(1) by auto
  have unfold: "interpolate_idw data r p =
      (case np_arange lon_min lon_max r of
         Inl e \<Rightarrow> Inl e
       | Inr lons \<Rightarrow>
        (case np_arange lat_min lat_max r of
           Inl e \<Rightarrow> Inl e
         | Inr lats \<Rightarrow>
           Inr (Some (replicate (length lats) lons, map (\<lambda>y. replicate (length lons) y) lats,
             idw_loops data (map sample.value data) p (replicate (length lats) lons)
               (map (\<lambda>y. replicate (length lons) y) lats)
               (full_like_nan (replicate (length lats) lons))))))"
    unfolding interpolate_idw_def Let_def
      lon_min_def [symmetric] lon_max_def [symmetric]
      lat_min_def [symmetric] lat_max_def [symmetric]
    using gate by (simp add: meshgrid_def split: sum.splits)
  consider (e1) "arange_length lon_min lon_max r = Inl ArangeError"
      "np_arange lon_min lon_max r = Inl ArangeError"
    | (e2) cols where "arange_length lon_min lon_max r = Inr cols"
        "np_arange lon_min lon_max r = Inr (map (arange_item lon_min r) [0..<cols])"
        "arange_length lat_min lat_max r = Inl ArangeError"
        "np_arange lat_min lat_max r = Inl ArangeError"
    | (ok) cols rows where "arange_length lon_min lon_max r = Inr cols"
        "np_arange lon_min lon_max r = Inr (map (arange_item lon_min r) [0..<cols])"
        "arange_length lat_min lat_max r = Inr rows"
        "np_arange lat_min lat_max r = Inr (map (arange_item lat_min r) [0..<rows])"
    using np_arange_cases [of lon_min lon_max r] np_arange_cases [of lat_min lat_max r]
    by blast
  then show ?thesis
  proof cases
    case e1
    then show ?thesis by (simp add: unfold)
  next
    case e2
    then show ?thesis by (simp add: unfold)
  next
    case ok
    let ?lons = "map (arange_item lon_min r) [0..<cols]"
    let ?lats = "map (arange_item lat_min r) [0..<rows]"
    let ?glon = "replicate rows ?lons"
    let ?glat = "map (\<lambda>y. replicate cols y) ?lats"
    let ?g0 = "full_like_nan ?glon"
    let ?run = "idw_loops data (map sample.value data) p ?glon ?glat ?g0"
    have res: "interpolate_idw data r p = Inr (Some (?glon, ?glat, ?run))"
      using ok by (simp add: unfold)
    have g0: "length ?g0 = rows" "\<And>i. i < rows \<Longrightarrow> length (?g0 ! i) = cols"
      by (simp_all add: full_like_nan_def)
    have len: "length ?run = rows"
      using loops_nth(1) [of data p ?glon ?glat ?g0] g0 by simp
    have cell: "length (?run ! i) = cols \<and> (\<forall>j<cols. ?run ! i ! j =
        cell_value data p (arange_item lon_min r j) (arange_item lat_min r i))"
      if i: "i < rows" for i
    proof -
      from i have sh: "shape1 ?glon = cols" "shape0 ?glat = rows"
        by (simp_all add: shape1_replicate shape0_def)
      have "length (?run ! i) = cols"
        using loops_nth(2) [of i ?g0 data p ?glon ?glat] g0 i by simp
      moreover have "?run ! i ! j =
          cell_value data p (arange_item lon_min r j) (arange_item lat_min r i)"
        if j: "j < cols" for j
      proof -
        have "?run ! i ! j = cell_value data p (?glon ! i ! j) (?glat ! i ! j)"
          using loops_nth(3) [of i ?g0 ?glat j ?glon data p] g0 i j sh by simp
        with i j show ?thesis by simp
      qed
      ultimately show ?thesis by blast
    qed
    from res len cell ok(1,3) show ?thesis
      by (simp add: comp_def)
  qed
qed

text \<open>With the resolution 0 the quotient is infinite or NaN and \<^verbatim>\<open>np.arange\<close> raises.\<close>

lemma arange_zero_step: "arange_length start stop (Fin 0) = Inl ArangeError"
  by (cases "np_sub stop start") (simp_all add: arange_length_def Let_def)

lemma interpolate_idw_zero_resolution:
  "3 \<le> length data \<Longrightarrow> interpolate_idw data (Fin 0) p = Inl ArangeError"
  using interpolate_idw_grid [of data "Fin 0" p] by (auto simp: arange_zero_step)

lemma point_is_cell_value:
  "3 \<le> length data \<Longrightarrow> interpolate_idw_point data x y p = cell_value data p x y"
  by (auto simp: interpolate_idw_point_def cell_value_def Let_def)

lemma interpolate_idw_Some:
  assumes "interpolate_idw data r p = Inr (Some (glon, glat, gv))"
  shows "3 \<le> length data"
    and "\<exists>lons lats. glon = replicate (length lats) lons
           \<and> glat = map (\<lambda>y. replicate (length lons) y) lats"
    and "gv = idw_loops data (map sample.value data) p glon glat (full_like_nan glon)"
  using assms
  by (auto simp: interpolate_idw_def Let_def meshgrid_def split: if_splits sum.splits)

lemma mesh_cells_assigned:
  assumes "interpolate_idw data grid_resolution pwr = Inr (Some (grid_lon, grid_lat, grid_values))"
  shows "(\<forall>i<length grid_values. \<forall>j<length (grid_values ! i).
            grid_values ! i ! j =
              weighted_average
                (idw_weights (replace_zero
                   (np_dists data (grid_lon ! i ! j) (grid_lat ! i ! j))) pwr)
                (map sample.value data))
       \<and> (\<forall>g. length g = length grid_values
               \<and> (\<forall>i<length grid_values. length (g ! i) = length (grid_values ! i))
             \<longrightarrow> idw_loops data (map sample.value data) pwr grid_lon grid_lat g = grid_values)"
proof -
  from interpolate_idw_Some [OF assms] obtain lons lats where
    glon: "grid_lon = replicate (length lats) lons"
    and glat: "grid_lat = map (\<lambda>y. replicate (length lons) y) lats"
    and gv: "grid_values =
      idw_loops data (map sample.value data) pwr grid_lon grid_lat (full_like_nan grid_lon)"
    by blast
  let ?table = "map (\<lambda>i. map (\<lambda>j. cell_value data pwr (grid_lon ! i ! j) (grid_lat ! i ! j))
                  [0..<shape1 grid_lon]) [0..<shape0 grid_lat]"
  have s0: "shape0 grid_lat = length lats" by (simp add: glat shape0_def)
  have f0: "length (full_like_nan grid_lon) = shape0 grid_lat"
    by (simp add: s0 glon full_like_nan_def)
  have f1: "\<forall>i<length (full_like_nan grid_lon).
      length (full_like_nan grid_lon ! i) = shape1 grid_lon"
    by (auto simp: glon full_like_nan_def shape1_replicate)
  have tab: "grid_values = ?table"
    by (subst gv) (rule loops_table [OF f0 f1])
  have len: "length grid_values = shape0 grid_lat"
    and row: "\<forall>i<length grid_values. length (grid_values ! i) = shape1 grid_lon"
    by (simp_all add: tab)
  have cells: "\<forall>i<length grid_values. \<forall>j<length (grid_values ! i).
      grid_values ! i ! j =
        weighted_average
          (idw_weights (replace_zero (np_dists data (grid_lon ! i ! j) (grid_lat ! i ! j))) pwr)
          (map sample.value data)"
    by (simp add: tab cell_value_def)
  have indep: "idw_loops data (map sample.value data) pwr grid_lon grid_lat g = grid_values"
    if g: "length g = length grid_values"
      "\<forall>i<length grid_values. length (g ! i) = length (grid_values ! i)" for g
  proof -
    have g0: "length g = shape0 grid_lat" using g(1) len by simp
    have g1: "\<forall>i<length g. length (g ! i) = shape1 grid_lon" using g row by simp
    from loops_table [OF g0 g1] tab show ?thesis by simp
  qed
  from cells indep show ?thesis by blast
qed

section \<open>Evaluations\<close>

text \<open>The roundings that the evaluations below perform, each checked against its two
  neighbouring powers of two and the half-way points.\<close>

lemma r64_1 [r64]: "round64 12 = Fin 12"
  by (rule round64_eqI [where e = "3" and q = "(- 49)" and n = "6755399441055744", THEN trans])
     (simp_all add: rne_def)

lemma r64_2 [r64]: "round64 50 = Fin 50"
  by (rule round64_eqI [where e = "5" and q = "(- 47)" and n = "7036874417766400", THEN trans])
     (simp_all add: rne_def)

lemma r64_3 [r64]: "round64 (25 / 6) = Fin (4691249611844267 / 1125899906842624)"
  by (rule round64_eqI [where e = "2" and q = "(- 50)" and n = "4691249611844267", THEN trans])
     (simp_all add: rne_def)

lemma r64_4 [r64]: "round64 (14073748835532801 / 281474976710656) = Fin 50"
  by (rule round64_eqI [where e = "5" and q = "(- 47)" and n = "7036874417766400", THEN trans])
     (simp_all add: rne_def)

lemma r64_5 [r64]: "round64 (120000001 / 10000000) = Fin (6755399497350739 / 562949953421312)"
  by (rule round64_eqI [where e = "3" and q = "(- 49)" and n = "6755399497350739", THEN trans])
     (simp_all add: rne_def)

lemma r64_6 [r64]: "round64 (177 / 5) = Fin (4982107087778611 / 140737488355328)"
  by (rule round64_eqI [where e = "5" and q = "(- 47)" and n = "4982107087778611", THEN trans])
     (simp_all add: rne_def)

lemma r64_7 [r64]: "round64 (117 / 5) = Fin (3293257227514675 / 140737488355328)"
  by (rule round64_eqI [where e = "4" and q = "(- 48)" and n = "6586514455029350", THEN trans])
     (simp_all add: rne_def)

lemma r64_8 [r64]: "round64 (281474976710656 / 131730289100587) = Fin (4811538063430017 / 2251799813685248)"
  by (rule round64_eqI [where e = "1" and q = "(- 51)" and n = "4811538063430017", THEN trans])
     (simp_all add: rne_def)

lemma r64_9 [r64]: "round64 (121 / 10) = Fin (6811694436397875 / 562949953421312)"
  by (rule round64_eqI [where e = "3" and q = "(- 49)" and n = "6811694436397875", THEN trans])
     (simp_all add: rne_def)

lemma r64_10 [r64]: "round64 (- (1759216845223 / 17592186044416)) = Fin (- (1759216845223 / 17592186044416))"
  by (rule round64_eqI [where e = "(- 4)" and q = "(- 56)" and n = "(- 7205752198033408)", THEN trans])
     (simp_all add: rne_def)

lemma r64_11 [r64]: "round64 (- (8464538812617737373181258791 / 39614081257132168796771975168)) = Fin (- (7698453203027145 / 36028797018963968))"
  by (rule round64_eqI [where e = "(- 3)" and q = "(- 55)" and n = "(- 7698453203027145)", THEN trans])
     (simp_all add: rne_def)

lemma r64_12 [r64]: "round64 (1793741397745171255 / 36028797018963968) = Fin (7006802334942075 / 140737488355328)"
  by (rule round64_eqI [where e = "5" and q = "(- 47)" and n = "7006802334942075", THEN trans])
     (simp_all add: rne_def)

lemma r64_13 [r64]: "round64 (13116733914716569 / 562949953421312) = Fin (1639591739339571 / 70368744177664)"
  by (rule round64_eqI [where e = "4" and q = "(- 48)" and n = "6558366957358284", THEN trans])
     (simp_all add: rne_def)

lemma r64_14 [r64]: "round64 (7888958062317772669566557302707 / 158456325028528675187087900672) = Fin (7006802304869961 / 140737488355328)"
  by (rule round64_eqI [where e = "5" and q = "(- 47)" and n = "7006802304869961", THEN trans])
     (simp_all add: rne_def)

lemma r64_15 [r64]: "round64 (14043676722636361 / 140737488355328) = Fin (1755459590329545 / 17592186044416)"
  by (rule round64_eqI [where e = "6" and q = "(- 46)" and n = "7021838361318180", THEN trans])
     (simp_all add: rne_def)

lemma r64_16 [r64]: "round64 (752 / 5) = Fin (5291729562160333 / 35184372088832)"
  by (rule round64_eqI [where e = "7" and q = "(- 45)" and n = "5291729562160333", THEN trans])
     (simp_all add: rne_def)

lemma r64_17 [r64]: "round64 (277 / 5) = Fin (7796856854885171 / 140737488355328)"
  by (rule round64_eqI [where e = "5" and q = "(- 47)" and n = "7796856854885171", THEN trans])
     (simp_all add: rne_def)

lemma r64_18 [r64]: "round64 150 = Fin 150"
  by (rule round64_eqI [where e = "7" and q = "(- 45)" and n = "5277655813324800", THEN trans])
     (simp_all add: rne_def)

lemma r64_19 [r64]: "round64 95 = Fin 95"
  by (rule round64_eqI [where e = "6" and q = "(- 46)" and n = "6685030696878080", THEN trans])
     (simp_all add: rne_def)

lemma r64_20 [r64]: "round64 (10 / 19) = Fin (4740631186705785 / 9007199254740992)"
  by (rule round64_eqI [where e = "(- 1)" and q = "(- 53)" and n = "4740631186705785", THEN trans])
     (simp_all add: rne_def)

lemma r64_21 [r64]: "round64 (111 / 2) = Fin (111 / 2)"
  by (rule round64_eqI [where e = "5" and q = "(- 47)" and n = "7810930603720704", THEN trans])
     (simp_all add: rne_def)

lemma r64_22 [r64]: "round64 (3338996911230157 / 35184372088832) = Fin (3338996911230157 / 35184372088832)"
  by (rule round64_eqI [where e = "6" and q = "(- 46)" and n = "6677993822460314", THEN trans])
     (simp_all add: rne_def)

lemma r64_23 [r64]: "round64 (15828952889691969832868778358245 / 316912650057057350374175801344) = Fin (1757366795384293 / 35184372088832)"
  by (rule round64_eqI [where e = "5" and q = "(- 47)" and n = "7029467181537172", THEN trans])
     (simp_all add: rne_def)

lemma r64_24 [r64]: "round64 (7035022608709093 / 35184372088832) = Fin (7035022608709093 / 35184372088832)"
  by (rule round64_eqI [where e = "7" and q = "(- 45)" and n = "7035022608709093", THEN trans])
     (simp_all add: rne_def)

lemma r64_25 [r64]: "round64 1000 = Fin 1000"
  by (rule round64_eqI [where e = "9" and q = "(- 43)" and n = "8796093022208000", THEN trans])
     (simp_all add: rne_def)

lemma r64_26 [r64]: "round64 100 = Fin 100"
  by (rule round64_eqI [where e = "6" and q = "(- 46)" and n = "7036874417766400", THEN trans])
     (simp_all add: rne_def)

lemma r64_27 [r64]: "round64 1 = Fin 1"
  by (rule round64_eqI [where e = "0" and q = "(- 52)" and n = "4503599627370496", THEN trans])
     (simp_all add: rne_def)

lemma r64_28 [r64]: "round64 (1 / 20282409603651670423947251286016) = Fin (1 / 20282409603651670423947251286016)"
  by (rule round64_eqI [where e = "(- 104)" and q = "(- 156)" and n = "4503599627370496", THEN trans])
     (simp_all add: rne_def)

lemma r64_29 [r64]: "round64 20282409603651670423947251286016 = Fin 20282409603651670423947251286016"
  by (rule round64_eqI [where e = "104" and q = "52" and n = "4503599627370496", THEN trans])
     (simp_all add: rne_def)

lemma r64_30 [r64]: "round64 717997299969269104184695080353792 = Fin 717997299969269104184695080353792"
  by (rule round64_eqI [where e = "109" and q = "57" and n = "4982107087778611", THEN trans])
     (simp_all add: rne_def)

lemma r64_31 [r64]: "round64 (4982107087778611 / 140737488355328) = Fin (4982107087778611 / 140737488355328)"
  by (rule round64_eqI [where e = "5" and q = "(- 47)" and n = "4982107087778611", THEN trans])
     (simp_all add: rne_def)

lemma r64_32 [r64]: "round64 (101049136643581955522444725906695152973535982387 / 140737488355328) = Fin 717997299969269104184695080353792"
  by (rule round64_eqI [where e = "109" and q = "57" and n = "4982107087778611", THEN trans])
     (simp_all add: rne_def)

lemma r64_33 [r64]: "round64 20282409603651670423947251286017 = Fin 20282409603651670423947251286016"
  by (rule round64_eqI [where e = "104" and q = "52" and n = "4503599627370496", THEN trans])
     (simp_all add: rne_def)

lemma r64_34 [r64]: "round64 2 = Fin 2"
  by (rule round64_eqI [where e = "1" and q = "(- 51)" and n = "4503599627370496", THEN trans])
     (simp_all add: rne_def)

lemma r64_35 [r64]: "round64 4 = Fin 4"
  by (rule round64_eqI [where e = "2" and q = "(- 50)" and n = "4503599627370496", THEN trans])
     (simp_all add: rne_def)

lemma r64_36 [r64]: "round64 3 = Fin 3"
  by (rule round64_eqI [where e = "1" and q = "(- 51)" and n = "6755399441055744", THEN trans])
     (simp_all add: rne_def)

lemma r64_37 [r64]: "round64 9 = Fin 9"
  by (rule round64_eqI [where e = "3" and q = "(- 49)" and n = "5066549580791808", THEN trans])
     (simp_all add: rne_def)

lemma r64_38 [r64]: "round64 5 = Fin 5"
  by (rule round64_eqI [where e = "2" and q = "(- 50)" and n = "5629499534213120", THEN trans])
     (simp_all add: rne_def)

lemma r64_39 [r64]: "round64 25 = Fin 25"
  by (rule round64_eqI [where e = "4" and q = "(- 48)" and n = "7036874417766400", THEN trans])
     (simp_all add: rne_def)

lemma r64_40 [r64]: "round64 144 = Fin 144"
  by (rule round64_eqI [where e = "7" and q = "(- 45)" and n = "5066549580791808", THEN trans])
     (simp_all add: rne_def)

lemma r64_41 [r64]: "round64 169 = Fin 169"
  by (rule round64_eqI [where e = "7" and q = "(- 45)" and n = "5946158883012608", THEN trans])
     (simp_all add: rne_def)

lemma r64_42 [r64]: "round64 13 = Fin 13"
  by (rule round64_eqI [where e = "3" and q = "(- 49)" and n = "7318349394477056", THEN trans])
     (simp_all add: rne_def)

lemma r64_43 [r64]: "round64 (1 / 4) = Fin (1 / 4)"
  by (rule round64_eqI [where e = "(- 2)" and q = "(- 54)" and n = "4503599627370496", THEN trans])
     (simp_all add: rne_def)

lemma r64_44 [r64]: "round64 (1 / 9) = Fin (2001599834386887 / 18014398509481984)"
  by (rule round64_eqI [where e = "(- 4)" and q = "(- 56)" and n = "8006399337547548", THEN trans])
     (simp_all add: rne_def)

lemma r64_45 [r64]: "round64 (1 / 169) = Fin (6822020737318621 / 1152921504606846976)"
  by (rule round64_eqI [where e = "(- 8)" and q = "(- 60)" and n = "6822020737318621", THEN trans])
     (simp_all add: rne_def)

lemma r64_46 [r64]: "round64 (4982107087778611 / 562949953421312) = Fin (4982107087778611 / 562949953421312)"
  by (rule round64_eqI [where e = "3" and q = "(- 49)" and n = "4982107087778611", THEN trans])
     (simp_all add: rne_def)

lemma r64_47 [r64]: "round64 (9972184721795403671219977473957 / 2535301200456458802993406410752) = Fin (8857079267161975 / 2251799813685248)"
  by (rule round64_eqI [where e = "1" and q = "(- 51)" and n = "8857079267161975", THEN trans])
     (simp_all add: rne_def)

lemma r64_48 [r64]: "round64 (33988037868367767449471415815431 / 162259276829213363391578010288128) = Fin (1886715110164681 / 9007199254740992)"
  by (rule round64_eqI [where e = "(- 3)" and q = "(- 55)" and n = "7546860440658724", THEN trans])
     (simp_all add: rne_def)

lemma r64_49 [r64]: "round64 (28785507618276419 / 2251799813685248) = Fin (7196376904569105 / 562949953421312)"
  by (rule round64_eqI [where e = "3" and q = "(- 49)" and n = "7196376904569105", THEN trans])
     (simp_all add: rne_def)

lemma r64_50 [r64]: "round64 (117028745583270361 / 9007199254740992) = Fin (3657148299477199 / 281474976710656)"
  by (rule round64_eqI [where e = "3" and q = "(- 49)" and n = "7314296598954398", THEN trans])
     (simp_all add: rne_def)

lemma r64_51 [r64]: "round64 (6505199461757383 / 18014398509481984) = Fin (6505199461757383 / 18014398509481984)"
  by (rule round64_eqI [where e = "(- 2)" and q = "(- 54)" and n = "6505199461757383", THEN trans])
     (simp_all add: rne_def)

lemma r64_52 [r64]: "round64 (423154786289791133 / 1152921504606846976) = Fin (3305896767888993 / 9007199254740992)"
  by (rule round64_eqI [where e = "(- 2)" and q = "(- 54)" and n = "6611793535777986", THEN trans])
     (simp_all add: rne_def)

lemma r64_53 [r64]: "round64 (117028745583270368 / 3305896767888993) = Fin (1245526771944653 / 35184372088832)"
  by (rule round64_eqI [where e = "5" and q = "(- 47)" and n = "4982107087778612", THEN trans])
     (simp_all add: rne_def)

lemma r64_54 [r64]: "round64 (1 / 53058536290991634737396540170283858539198978395771271474551549598742698935712572215646062825029533563666321339663466341699370021653261445199826360714064955944866263669556212233526813063143284104557957658305559283253118889734882642786544086063293282737405311454375777285526890640894984855797452638426498665888535738081213096656896) = Fin 0"
  by (rule round64_eqI [where e = "(- 1092)" and q = "(- 1074)" and n = "0", THEN trans])
     (simp_all add: rne_def)

lemma r64_55 [r64]: "round64 40 = Fin 40"
  by (rule round64_eqI [where e = "5" and q = "(- 47)" and n = "5629499534213120", THEN trans])
     (simp_all add: rne_def)

lemma r64_56 [r64]: "round64 60 = Fin 60"
  by (rule round64_eqI [where e = "5" and q = "(- 47)" and n = "8444249301319680", THEN trans])
     (simp_all add: rne_def)

lemma r64_57 [r64]: "round64 (1 / 14059105607947488696282932836518693308967803494693489478439861164411992439598399594747002144074658928593502845729752797260025831423419686528151609940203637047296) = Fin (1 / 14059105607947488696282932836518693308967803494693489478439861164411992439598399594747002144074658928593502845729752797260025831423419686528151609940203637047296)"
  by (rule round64_eqI [where e = "(- 532)" and q = "(- 584)" and n = "4503599627370496", THEN trans])
     (simp_all add: rne_def)

lemma r64_58 [r64]: "round64 (1 / 197658450495420525734858737030192682665582665785295037457911482448662440984370455949180062208434691889831130726871886632216610095103313942252942773379627451095231859645084337269987214591887906583241960623508540106017585433031926463494241558251132379239072320812850360890950600210186037629088210457662115491511433340911616) = Fin (1 / 197658450495420525734858737030192682665582665785295037457911482448662440984370455949180062208434691889831130726871886632216610095103313942252942773379627451095231859645084337269987214591887906583241960623508540106017585433031926463494241558251132379239072320812850360890950600210186037629088210457662115491511433340911616)"
  by (rule round64_eqI [where e = "(- 1064)" and q = "(- 1074)" and n = "1024", THEN trans])
     (simp_all add: rne_def)

lemma r64_59 [r64]: "round64 197658450495420525734858737030192682665582665785295037457911482448662440984370455949180062208434691889831130726871886632216610095103313942252942773379627451095231859645084337269987214591887906583241960623508540106017585433031926463494241558251132379239072320812850360890950600210186037629088210457662115491511433340911616 = PInf"
  by (rule round64_infI [where e = "1064" and q = "1012" and n = "4503599627370496", THEN trans])
     (simp_all add: rne_def)

lemma r64_60 [r64]: "round64 202824096036516704239472512860160 = Fin 202824096036516704239472512860160"
  by (rule round64_eqI [where e = "107" and q = "55" and n = "5629499534213120", THEN trans])
     (simp_all add: rne_def)

lemma r64_61 [r64]: "round64 202824096036516704239472512860200 = Fin 202824096036516704239472512860160"
  by (rule round64_eqI [where e = "107" and q = "55" and n = "5629499534213120", THEN trans])
     (simp_all add: rne_def)

lemma r64_62 [r64]: "round64 202824096036516704239472512860220 = Fin 202824096036516704239472512860160"
  by (rule round64_eqI [where e = "107" and q = "55" and n = "5629499534213120", THEN trans])
     (simp_all add: rne_def)

lemma r64_63 [r64]: "round64 10 = Fin 10"
  by (rule round64_eqI [where e = "3" and q = "(- 49)" and n = "5629499534213120", THEN trans])
     (simp_all add: rne_def)

lemma r64_64 [r64]: "round64 (1 / 10) = Fin (3602879701896397 / 36028797018963968)"
  by (rule round64_eqI [where e = "(- 4)" and q = "(- 56)" and n = "7205759403792794", THEN trans])
     (simp_all add: rne_def)

lemma r64_65 [r64]: "round64 (- (3602879701896397 / 36028797018963968)) = Fin (- (3602879701896397 / 36028797018963968))"
  by (rule round64_eqI [where e = "(- 4)" and q = "(- 56)" and n = "(- 7205759403792794)", THEN trans])
     (simp_all add: rne_def)

lemma r64_66 [r64]: "round64 (39631676720860365 / 36028797018963968) = Fin (2476979795053773 / 2251799813685248)"
  by (rule round64_eqI [where e = "0" and q = "(- 52)" and n = "4953959590107546", THEN trans])
     (simp_all add: rne_def)

lemma r64_67 [r64]: "round64 (1 / 20) = Fin (3602879701896397 / 72057594037927936)"
  by (rule round64_eqI [where e = "(- 5)" and q = "(- 57)" and n = "7205759403792794", THEN trans])
     (simp_all add: rne_def)

lemma r64_68 [r64]: "round64 (43234556422756765 / 36028797018963968) = Fin (1351079888211149 / 1125899906842624)"
  by (rule round64_eqI [where e = "0" and q = "(- 52)" and n = "5404319552844596", THEN trans])
     (simp_all add: rne_def)

lemma r64_69 [r64]: "round64 (86469112845513536 / 3602879701896397) = Fin (6755399441055745 / 281474976710656)"
  by (rule round64_eqI [where e = "4" and q = "(- 48)" and n = "6755399441055745", THEN trans])
     (simp_all add: rne_def)

lemma r64_70 [r64]: "round64 24 = Fin 24"
  by (rule round64_eqI [where e = "4" and q = "(- 48)" and n = "6755399441055744", THEN trans])
     (simp_all add: rne_def)

lemma r64_71 [r64]: "round64 (- (3602879701896397 / 72057594037927936)) = Fin (- (3602879701896397 / 72057594037927936))"
  by (rule round64_eqI [where e = "(- 5)" and q = "(- 57)" and n = "(- 7205759403792794)", THEN trans])
     (simp_all add: rne_def)

lemma r64_72 [r64]: "round64 (3602879701896397 / 72057594037927936) = Fin (3602879701896397 / 72057594037927936)"
  by (rule round64_eqI [where e = "(- 5)" and q = "(- 57)" and n = "7205759403792794", THEN trans])
     (simp_all add: rne_def)

lemma r64_73 [r64]: "round64 (10808639105689191 / 9007199254740992) = Fin (1351079888211149 / 1125899906842624)"
  by (rule round64_eqI [where e = "0" and q = "(- 52)" and n = "5404319552844596", THEN trans])
     (simp_all add: rne_def)

lemma r64_74 [r64]: "round64 (39631676720860371 / 36028797018963968) = Fin (2476979795053773 / 2251799813685248)"
  by (rule round64_eqI [where e = "0" and q = "(- 52)" and n = "4953959590107546", THEN trans])
     (simp_all add: rne_def)

lemma r64_75 [r64]: "round64 (1351079888211149 / 562949953421312) = Fin (1351079888211149 / 562949953421312)"
  by (rule round64_eqI [where e = "1" and q = "(- 51)" and n = "5404319552844596", THEN trans])
     (simp_all add: rne_def)

lemma r64_76 [r64]: "round64 (43234556422756768 / 3602879701896397) = Fin (6755399441055745 / 562949953421312)"
  by (rule round64_eqI [where e = "3" and q = "(- 49)" and n = "6755399441055745", THEN trans])
     (simp_all add: rne_def)

lemma r64_77 [r64]: "round64 179769313486231590772930519078902473361797697894230657273430081157732675805500963132708477322407536021120113879871393357658789768814416622492847430639474124377767893424865485276302219601246094119453082952085005768838150682342462881473913110540827237163350510684586298239947245938479716304835356329624224137216 = PInf"
  by (rule round64_infI [where e = "1024" and q = "972" and n = "4503599627370496", THEN trans])
     (simp_all add: rne_def)

lemma r64_78 [r64]: "round64 242882703968772777976857113309018923045571795497465214387821208479047862167610647816887621541917175935919957918687378517690546459141623703998369842812210710475307037026704509190938974263608914869931641463386117972890999397110785005971860495271567762391594175980277956132902234455536251028072780706318468483040515214157021184 = PInf"
  by (rule round64_infI [where e = "1074" and q = "1022" and n = "5404319552844596", THEN trans])
     (simp_all add: rne_def)

lemma r64_sqrt_2 [r64]: "sqrt 9 = 3"
  by (rule real_sqrt_unique) (simp_all add: power_divide)

lemma r64_sqrt_3 [r64]: "sqrt 169 = 13"
  by (rule real_sqrt_unique) (simp_all add: power_divide)

lemma r64_sqrt_4 [r64]: "sqrt (1 / 197658450495420525734858737030192682665582665785295037457911482448662440984370455949180062208434691889831130726871886632216610095103313942252942773379627451095231859645084337269987214591887906583241960623508540106017585433031926463494241558251132379239072320812850360890950600210186037629088210457662115491511433340911616) = 1 / 14059105607947488696282932836518693308967803494693489478439861164411992439598399594747002144074658928593502845729752797260025831423419686528151609940203637047296"
  by (rule real_sqrt_unique) (simp_all add: power_divide)

lemma d35_4_literal: "round64 35.4 = Fin d35_4"
  by (simp add: d35_4_def r64)

lemma point_uniform: "interpolate_idw_point uniform_stations (Fin 0) (Fin 0) 2 = Fin d35_4"
  by (simp add: uniform_stations_def d35_4_def interpolate_idw_point_def np_dists_def
      np_square_def np_sub_def replace_zero_def idw_weights_def weighted_average_def
      np_sum_def finfo_eps_def power_divide r64)

lemma js_uniform: "js_pm25 uniform_stations (Fin 0) (Fin 0) = Fin d35_4"
  by (simp add: uniform_stations_def d35_4_def js_pm25_def js_station_def np_sub_def
      finfo_eps_def Let_def power_divide r64)


lemma cell_near: "cell_value near_stations 2 (Fin 0) (Fin 0) = NaN"
  by (simp add: near_stations_def cell_value_def np_dists_def
      np_square_def np_sub_def replace_zero_def idw_weights_def weighted_average_def
      np_sum_def finfo_eps_def power_divide r64)

lemma weights_power_21:
  "np_dists example_stations (Fin 0) (Fin 0) = [Fin 0, Fin 1, Fin 1]"
  "replace_zero [Fin 0, Fin 1, Fin 1] = [Fin finfo_eps, Fin 1, Fin 1]"
  "np_power (Fin finfo_eps) 21 = Fin 0"
  "idw_weights [Fin finfo_eps, Fin 1, Fin 1] 21 = [PInf, Fin 1, Fin 1]"
  "interpolate_idw_point example_stations (Fin 0) (Fin 0) 21 = NaN"
  by (simp_all add: example_stations_def interpolate_idw_point_def np_dists_def
      np_square_def np_sub_def replace_zero_def idw_weights_def weighted_average_def
      np_sum_def finfo_eps_def power_divide r64)

lemma example_envelope:
  "Min (set (map lon example_stations)) = 0" "Max (set (map lon example_stations)) = 1"
  "Min (set (map lat example_stations)) = 0" "Max (set (map lat example_stations)) = 1"
  by (simp_all add: example_stations_def)

lemma near_envelope:
  "Min (set (map lon near_stations)) = 0" "Max (set (map lon near_stations)) = 1"
  "Min (set (map lat near_stations)) = 0" "Max (set (map lat near_stations)) = 1"
  by (simp_all add: near_stations_def)

lemma envelope_bounds:
  "np_sub (Fin 0) (round64 0.1) = Fin (- (3602879701896397 / 36028797018963968))"
  "np_add (Fin 1) (round64 0.1) = Fin (2476979795053773 / 2251799813685248)"
  by (simp_all add: np_sub_def r64)

lemma arange_005:
  "arange_length (Fin (- (3602879701896397 / 36028797018963968)))
     (Fin (2476979795053773 / 2251799813685248)) (round64 0.05) = Inr 25"
  "arange_item (Fin (- (3602879701896397 / 36028797018963968))) (round64 0.05) 24
     = Fin (2476979795053773 / 2251799813685248)"
  by (simp_all add: arange_length_def arange_item_def np_sub_def Let_def r64)

lemma arange_half:
  "arange_length (Fin (- (3602879701896397 / 36028797018963968)))
     (Fin (2476979795053773 / 2251799813685248)) (Fin (1 / 2)) = Inr 3"
  "arange_item (Fin (- (3602879701896397 / 36028797018963968))) (Fin (1 / 2)) 0
     = Fin (- (3602879701896397 / 36028797018963968))"
  by (simp_all add: arange_length_def arange_item_def np_sub_def Let_def r64)

lemma arange_01:
  "arange_length (Fin (- (3602879701896397 / 36028797018963968)))
     (Fin (2476979795053773 / 2251799813685248)) (round64 0.1) = Inr 13"
  "arange_item (Fin (- (3602879701896397 / 36028797018963968))) (round64 0.1) 1 = Fin 0"
  by (simp_all add: arange_length_def arange_item_def np_sub_def Let_def r64)

lemma example_length: "3 \<le> length example_stations" "length example_stations = 3"
  by (simp_all add: example_stations_def)

lemma near_length: "3 \<le> length near_stations"
  by (simp add: near_stations_def)

lemma example_grid_half:
  "\<exists>gv. interpolate_idw example_stations (Fin (1 / 2)) 2 =
      Inr (Some (replicate 3 (map (arange_item (Fin (- (3602879701896397 / 36028797018963968)))
                    (Fin (1 / 2))) [0..<3]),
                 map (\<lambda>i. replicate 3 (arange_item (Fin (- (3602879701896397 / 36028797018963968)))
                    (Fin (1 / 2)) i)) [0..<3], gv))
    \<and> length gv = 3 \<and> (\<forall>i<3. length (gv ! i) = 3)"
  using interpolate_idw_grid [OF example_length(1), of "Fin (1 / 2)" 2]
  unfolding example_envelope envelope_bounds arange_half(1)
  by auto

lemma example_grid_005:
  "\<exists>gv. interpolate_idw example_stations (round64 0.05) 2 =
      Inr (Some (replicate 25 (map (arange_item (Fin (- (3602879701896397 / 36028797018963968)))
                    (round64 0.05)) [0..<25]),
                 map (\<lambda>i. replicate 25 (arange_item (Fin (- (3602879701896397 / 36028797018963968)))
                    (round64 0.05) i)) [0..<25], gv))"
  using interpolate_idw_grid [OF example_length(1), of "round64 0.05" 2]
  unfolding example_envelope envelope_bounds arange_005(1)
  by auto

lemma near_grid_01:
  "\<exists>gv. interpolate_idw near_stations (round64 0.1) 2 =
      Inr (Some (replicate 13 (map (arange_item (Fin (- (3602879701896397 / 36028797018963968)))
                    (round64 0.1)) [0..<13]),
                 map (\<lambda>i. replicate 13 (arange_item (Fin (- (3602879701896397 / 36028797018963968)))
                    (round64 0.1) i)) [0..<13], gv))
     \<and> gv ! 1 ! 1 = cell_value near_stations 2
          (arange_item (Fin (- (3602879701896397 / 36028797018963968))) (round64 0.1) 1)
          (arange_item (Fin (- (3602879701896397 / 36028797018963968))) (round64 0.1) 1)"
  using interpolate_idw_grid [OF near_length, of "round64 0.1" 2]
  unfolding near_envelope envelope_bounds arange_01(1)
  by auto

lemma arange_tiny:
  "arange_length (Fin (- (3602879701896397 / 36028797018963968)))
     (Fin (2476979795053773 / 2251799813685248)) (Fin (1 / 2 ^ 1074)) = Inl ArangeError"
  by (simp add: arange_length_def np_sub_def Let_def r64)

lemma example_grid_tiny:
  "interpolate_idw example_stations (Fin (1 / 2 ^ 1074)) 2 = Inl ArangeError"
  using interpolate_idw_grid [OF example_length(1), of "Fin (1 / 2 ^ 1074)" 2]
  unfolding example_envelope envelope_bounds arange_tiny
  by auto

section \<open>The point estimator\<close>




text \<open>
  C4. For every sample set with fewer than 3 samples, the empty set included,
  \<^verbatim>\<open>interpolate_idw_point\<close> returns NaN and \<^verbatim>\<open>interpolate_idw\<close> returns the triple of
  \<^verbatim>\<open>None\<close>s, for every query point, resolution and power: neither computes a number and
  neither raises.
\<close>

theorem insufficient_data_sentinel:
  assumes "length data < 3"
  shows "interpolate_idw_point data query_lon query_lat pwr = NaN
       \<and> interpolate_idw data grid_resolution pwr = Inr None"
  using assms by (simp add: interpolate_idw_point_def interpolate_idw_def)

theorem insufficient_data_sentinel_witness:
  "length (take 2 example_stations) < 3
   \<and> interpolate_idw_point (take 2 example_stations) (Fin 0) (Fin 0) 2 = NaN
   \<and> interpolate_idw (take 2 example_stations) (Fin (1 / 2)) 2 = Inr None"
proof -
  have h: "length (take 2 example_stations) < 3" by simp
  from insufficient_data_sentinel [OF h] h show ?thesis by simp
qed

section \<open>The grid interpolator\<close>

text \<open>
  C5. For every sample set with at least 3 samples, every resolution and every power,
  \<^verbatim>\<open>interpolate_idw\<close> either raises inside \<^verbatim>\<open>np.arange\<close> and returns no mesh (the
  resolution 0 is such a case), or returns three meshes of one shape in which each cell
  \<open>(i, j)\<close> of the value mesh equals \<^verbatim>\<open>interpolate_idw_point\<close> applied to the same
  samples and power at \<open>(grid_lon[i, j], grid_lat[i, j])\<close>.
\<close>

theorem grid_cell_is_point_estimate:
  assumes "3 \<le> length data"
  shows "interpolate_idw data grid_resolution pwr = Inl ArangeError
       \<or> (\<exists>grid_lon grid_lat grid_values.
           interpolate_idw data grid_resolution pwr = Inr (Some (grid_lon, grid_lat, grid_values))
         \<and> length grid_lon = length grid_values
         \<and> length grid_lat = length grid_values
         \<and> (\<forall>i<length grid_values.
               length (grid_lon ! i) = length (grid_values ! i)
             \<and> length (grid_lat ! i) = length (grid_values ! i)
             \<and> (\<forall>j<length (grid_values ! i).
                   grid_values ! i ! j =
                     interpolate_idw_point data (grid_lon ! i ! j) (grid_lat ! i ! j) pwr)))"
  using interpolate_idw_grid [OF assms, of grid_resolution pwr] assms
  by (auto simp: point_is_cell_value)

theorem grid_cell_is_point_estimate_witness:
  "3 \<le> length example_stations
   \<and> (\<exists>grid_lon grid_lat grid_values.
        interpolate_idw example_stations (Fin (1 / 2)) 2
          = Inr (Some (grid_lon, grid_lat, grid_values))
      \<and> grid_lon ! 0 ! 0 = Fin (- (3602879701896397 / 36028797018963968))
      \<and> grid_lat ! 0 ! 0 = Fin (- (3602879701896397 / 36028797018963968))
      \<and> grid_values ! 0 ! 0 =
          interpolate_idw_point example_stations
            (Fin (- (3602879701896397 / 36028797018963968)))
            (Fin (- (3602879701896397 / 36028797018963968))) 2)"
  using grid_cell_is_point_estimate [OF example_length(1), of "Fin (1 / 2)" 2]
    example_grid_half example_length(1)
  by (auto simp: arange_half(2))

text \<open>
  C6, as the code has it. With fewer than 3 samples \<^verbatim>\<open>interpolate_idw\<close> builds no grid
  and returns the triple of \<^verbatim>\<open>None\<close>s. With at least 3 samples the envelope is the least
  and the greatest sample longitude and latitude, each moved outward by the double
  \<^verbatim>\<open>0.1\<close>; \<^verbatim>\<open>np.arange\<close> either raises, for one of the two axes, or gives \<open>cols\<close>
  longitudes and \<open>rows\<close> latitudes, and the meshes have \<open>rows\<close> rows and \<open>cols\<close> columns:
  the longitude of column \<open>j\<close> is element \<open>j\<close> of the longitude sequence and the latitude
  of row \<open>i\<close> element \<open>i\<close> of the latitude sequence. Lengths and elements are those of
  \<open>arange_length\<close> and \<open>arange_item\<close>: functions of the envelope and the resolution
  alone, computed in doubles, so that the last element is not always below the
  envelope maximum.
\<close>

theorem grid_construction:
  fixes data :: "sample list" and grid_resolution :: npfloat and pwr :: real
  defines "lon_min \<equiv> np_sub (Fin (Min (set (map lon data)))) (round64 0.1)"
    and "lon_max \<equiv> np_add (Fin (Max (set (map lon data)))) (round64 0.1)"
    and "lat_min \<equiv> np_sub (Fin (Min (set (map lat data)))) (round64 0.1)"
    and "lat_max \<equiv> np_add (Fin (Max (set (map lat data)))) (round64 0.1)"
  shows "(length data < 3 \<longrightarrow> interpolate_idw data grid_resolution pwr = Inr None)
       \<and> (3 \<le> length data \<longrightarrow>
            (interpolate_idw data grid_resolution pwr = Inl ArangeError
             \<and> (arange_length lon_min lon_max grid_resolution = Inl ArangeError
                \<or> arange_length lat_min lat_max grid_resolution = Inl ArangeError))
          \<or> (\<exists>cols rows grid_lon grid_lat grid_values.
               arange_length lon_min lon_max grid_resolution = Inr cols
             \<and> arange_length lat_min lat_max grid_resolution = Inr rows
             \<and> interpolate_idw data grid_resolution pwr
                 = Inr (Some (grid_lon, grid_lat, grid_values))
             \<and> length grid_lon = rows \<and> length grid_lat = rows \<and> length grid_values = rows
             \<and> (\<forall>i<rows.
                   length (grid_lon ! i) = cols \<and> length (grid_lat ! i) = cols
                 \<and> length (grid_values ! i) = cols
                 \<and> (\<forall>j<cols.
                       grid_lon ! i ! j = arange_item lon_min grid_resolution j
                     \<and> grid_lat ! i ! j = arange_item lat_min grid_resolution i))))"
proof (intro conjI impI)
  assume "length data < 3"
  then show "interpolate_idw data grid_resolution pwr = Inr None"
    by (simp add: interpolate_idw_def)
next
  assume h: "3 \<le> length data"
  from interpolate_idw_grid [OF h, of grid_resolution pwr,
      folded lon_min_def lon_max_def lat_min_def lat_max_def]
  consider (err) "interpolate_idw data grid_resolution pwr = Inl ArangeError"
      "arange_length lon_min lon_max grid_resolution = Inl ArangeError
       \<or> arange_length lat_min lat_max grid_resolution = Inl ArangeError"
    | (ok) cols rows gv where
      "arange_length lon_min lon_max grid_resolution = Inr cols"
      "arange_length lat_min lat_max grid_resolution = Inr rows"
      "interpolate_idw data grid_resolution pwr =
         Inr (Some (replicate rows (map (arange_item lon_min grid_resolution) [0..<cols]),
                    map (\<lambda>i. replicate cols (arange_item lat_min grid_resolution i)) [0..<rows],
                    gv))"
      "length gv = rows" "\<forall>i<rows. length (gv ! i) = cols"
    by blast
  then show "(interpolate_idw data grid_resolution pwr = Inl ArangeError
             \<and> (arange_length lon_min lon_max grid_resolution = Inl ArangeError
                \<or> arange_length lat_min lat_max grid_resolution = Inl ArangeError))
          \<or> (\<exists>cols rows grid_lon grid_lat grid_values.
               arange_length lon_min lon_max grid_resolution = Inr cols
             \<and> arange_length lat_min lat_max grid_resolution = Inr rows
             \<and> interpolate_idw data grid_resolution pwr
                 = Inr (Some (grid_lon, grid_lat, grid_values))
             \<and> length grid_lon = rows \<and> length grid_lat = rows \<and> length grid_values = rows
             \<and> (\<forall>i<rows.
                   length (grid_lon ! i) = cols \<and> length (grid_lat ! i) = cols
                 \<and> length (grid_values ! i) = cols
                 \<and> (\<forall>j<cols.
                       grid_lon ! i ! j = arange_item lon_min grid_resolution j
                     \<and> grid_lat ! i ! j = arange_item lat_min grid_resolution i)))"
  proof cases
    case err
    then show ?thesis by blast
  next
    case ok
    then show ?thesis by auto
  qed
qed

theorem grid_construction_witness:
  "3 \<le> length example_stations
   \<and> (\<exists>grid_lon grid_lat grid_values.
        interpolate_idw example_stations (Fin (1 / 2)) 2
          = Inr (Some (grid_lon, grid_lat, grid_values))
      \<and> length grid_lon = 3 \<and> length (grid_lon ! 0) = 3
      \<and> grid_lon ! 0 ! 0 = Fin (- (3602879701896397 / 36028797018963968))
      \<and> grid_lat ! 2 ! 0 =
          arange_item (Fin (- (3602879701896397 / 36028797018963968))) (Fin (1 / 2)) 2)
   \<and> length (take 2 example_stations) < 3
   \<and> interpolate_idw (take 2 example_stations) (Fin (1 / 2)) 2 = Inr None"
proof -
  have h2: "length (take 2 example_stations) < 3" by simp
  from grid_construction [of "take 2 example_stations" "Fin (1 / 2)" 2] h2
  have a: "interpolate_idw (take 2 example_stations) (Fin (1 / 2)) 2 = Inr None"
    by blast
  from grid_construction [of example_stations "Fin (1 / 2)" 2] example_length(1)
  have "\<exists>cols rows grid_lon grid_lat grid_values.
      arange_length (Fin (- (3602879701896397 / 36028797018963968)))
        (Fin (2476979795053773 / 2251799813685248)) (Fin (1 / 2)) = Inr cols
    \<and> arange_length (Fin (- (3602879701896397 / 36028797018963968)))
        (Fin (2476979795053773 / 2251799813685248)) (Fin (1 / 2)) = Inr rows
    \<and> interpolate_idw example_stations (Fin (1 / 2)) 2
        = Inr (Some (grid_lon, grid_lat, grid_values))
    \<and> length grid_lon = rows \<and> length grid_lat = rows \<and> length grid_values = rows
    \<and> (\<forall>i<rows.
          length (grid_lon ! i) = cols \<and> length (grid_lat ! i) = cols
        \<and> length (grid_values ! i) = cols
        \<and> (\<forall>j<cols.
              grid_lon ! i ! j = arange_item (Fin (- (3602879701896397 / 36028797018963968)))
                                   (Fin (1 / 2)) j
            \<and> grid_lat ! i ! j = arange_item (Fin (- (3602879701896397 / 36028797018963968)))
                                   (Fin (1 / 2)) i))"
    unfolding example_envelope envelope_bounds arange_half(1) by auto
  then obtain glon glat gv where
    res: "interpolate_idw example_stations (Fin (1 / 2)) 2 = Inr (Some (glon, glat, gv))"
    and len: "length glon = 3"
    and cell: "\<forall>i<3. length (glon ! i) = 3 \<and> (\<forall>j<3.
        glon ! i ! j = arange_item (Fin (- (3602879701896397 / 36028797018963968))) (Fin (1 / 2)) j
      \<and> glat ! i ! j = arange_item (Fin (- (3602879701896397 / 36028797018963968))) (Fin (1 / 2)) i)"
    unfolding arange_half(1) by auto
  from cell have "length (glon ! 0) = 3"
    "glon ! 0 ! 0 = Fin (- (3602879701896397 / 36028797018963968))"
    "glat ! 2 ! 0 = arange_item (Fin (- (3602879701896397 / 36028797018963968))) (Fin (1 / 2)) 2"
    by (simp_all add: arange_half(2))
  with res len a h2 example_length(1) show ?thesis by blast
qed

text \<open>
  With a single sample and the resolution 0.5 the gate returns the triple of
  \<^verbatim>\<open>None\<close>s: no envelope, no coordinate sequence and no mesh. With the three stations
  of the example and the resolution \<^verbatim>\<open>0.05\<close> the quotient \<open>(1.1 - (-0.1)) / 0.05\<close> is
  the double \<^verbatim>\<open>24.000000000000004\<close>: the meshes have 25 columns and the last longitude
  is the envelope maximum itself, so the range is not half-open. With the smallest
  positive double as resolution the quotient is infinite and \<^verbatim>\<open>np.arange\<close> raises.
\<close>

theorem grid_gate_and_closed_range:
  "interpolate_idw [\<lparr>lon = 0, lat = 0, value = 10\<rparr>] (Fin (1 / 2)) 2 = Inr None
   \<and> (case interpolate_idw example_stations (round64 0.05) 2 of
        Inr (Some (grid_lon, grid_lat, grid_values)) \<Rightarrow>
          length (grid_lon ! 0) = 25
          \<and> grid_lon ! 0 ! 24 = np_add (Fin (Max (set (map lon example_stations)))) (round64 0.1)
      | _ \<Rightarrow> False)
   \<and> interpolate_idw example_stations (Fin (1 / 2 ^ 1074)) 2 = Inl ArangeError"
proof -
  have "interpolate_idw [\<lparr>lon = 0, lat = 0, value = 10\<rparr>] (Fin (1 / 2)) 2 = Inr None"
    by (simp add: interpolate_idw_def)
  moreover from example_grid_005 obtain gv where
    "interpolate_idw example_stations (round64 0.05) 2 =
      Inr (Some (replicate 25 (map (arange_item (Fin (- (3602879701896397 / 36028797018963968)))
                    (round64 0.05)) [0..<25]),
                 map (\<lambda>i. replicate 25 (arange_item (Fin (- (3602879701896397 / 36028797018963968)))
                    (round64 0.05) i)) [0..<25], gv))"
    by blast
  then have "(case interpolate_idw example_stations (round64 0.05) 2 of
        Inr (Some (grid_lon, grid_lat, grid_values)) \<Rightarrow>
          length (grid_lon ! 0) = 25
          \<and> grid_lon ! 0 ! 24 = np_add (Fin (Max (set (map lon example_stations)))) (round64 0.1)
      | _ \<Rightarrow> False)"
    unfolding example_envelope envelope_bounds using arange_005(2) by simp
  ultimately show ?thesis using example_grid_tiny by blast
qed

text \<open>
  C10, as the code has it. For every sample set with at least 3 samples, every
  resolution and every power, \<^verbatim>\<open>interpolate_idw\<close> either raises inside \<^verbatim>\<open>np.arange\<close> or
  returns a value mesh in which every cell holds the weighted average computed for its
  node, and the loops produce that same mesh from any initial mesh of its shape:
  nothing of the NaN that initialises the mesh is left. The computed average itself
  is not always a finite number.
\<close>

theorem grid_cells_assigned:
  assumes "3 \<le> length data"
  shows "interpolate_idw data grid_resolution pwr = Inl ArangeError
       \<or> (\<exists>grid_lon grid_lat grid_values.
            interpolate_idw data grid_resolution pwr
              = Inr (Some (grid_lon, grid_lat, grid_values))
          \<and> (\<forall>i<length grid_values. \<forall>j<length (grid_values ! i).
                grid_values ! i ! j =
                  weighted_average
                    (idw_weights (replace_zero
                       (np_dists data (grid_lon ! i ! j) (grid_lat ! i ! j))) pwr)
                    (map sample.value data))
          \<and> (\<forall>g. length g = length grid_values
                  \<and> (\<forall>i<length grid_values. length (g ! i) = length (grid_values ! i))
                \<longrightarrow> idw_loops data (map sample.value data) pwr grid_lon grid_lat g
                      = grid_values))"
proof -
  from interpolate_idw_grid [OF assms, of grid_resolution pwr]
  consider "interpolate_idw data grid_resolution pwr = Inl ArangeError"
    | glon glat gv where
      "interpolate_idw data grid_resolution pwr = Inr (Some (glon, glat, gv))"
    by blast
  then show ?thesis
  proof cases
    case 1
    then show ?thesis by simp
  next
    case 2
    from mesh_cells_assigned [OF 2] 2 show ?thesis by blast
  qed
qed

theorem grid_cells_assigned_witness:
  "3 \<le> length example_stations
   \<and> (\<exists>grid_lon grid_lat grid_values.
        interpolate_idw example_stations (Fin (1 / 2)) 2
          = Inr (Some (grid_lon, grid_lat, grid_values))
      \<and> length grid_values = 3 \<and> length (grid_values ! 0) = 3
      \<and> grid_values ! 0 ! 0 =
          weighted_average
            (idw_weights (replace_zero
               (np_dists example_stations (grid_lon ! 0 ! 0) (grid_lat ! 0 ! 0))) 2)
            (map sample.value example_stations)
      \<and> idw_loops example_stations (map sample.value example_stations) 2 grid_lon grid_lat
          (replicate 3 (replicate 3 (Fin 0))) = grid_values)"
proof -
  from example_grid_half obtain glon glat gv where
    res: "interpolate_idw example_stations (Fin (1 / 2)) 2 = Inr (Some (glon, glat, gv))"
    and len: "length gv = 3" and row: "\<forall>i<3. length (gv ! i) = 3"
    by blast
  from grid_cells_assigned [OF example_length(1), of "Fin (1 / 2)" 2] res
  have cells: "\<forall>i<length gv. \<forall>j<length (gv ! i).
        gv ! i ! j =
          weighted_average
            (idw_weights (replace_zero
               (np_dists example_stations (glon ! i ! j) (glat ! i ! j))) 2)
            (map sample.value example_stations)"
    and indep: "\<forall>g. length g = length gv
          \<and> (\<forall>i<length gv. length (g ! i) = length (gv ! i))
        \<longrightarrow> idw_loops example_stations (map sample.value example_stations) 2 glon glat g = gv"
    by simp_all
  from cells len row
  have "gv ! 0 ! 0 =
        weighted_average
          (idw_weights (replace_zero
             (np_dists example_stations (glon ! 0 ! 0) (glat ! 0 ! 0))) 2)
          (map sample.value example_stations)"
    by simp
  moreover from indep len row
  have "idw_loops example_stations (map sample.value example_stations) 2 glon glat
        (replicate 3 (replicate 3 (Fin 0))) = gv"
    by simp
  ultimately show ?thesis using res len row example_length(1) by auto
qed

text \<open>
  A cell that holds NaN. The first station of this set lies \<open>2\<^sup>-\<^sup>5\<^sup>3\<^sup>2\<close> degrees east of
  the lattice node \<open>(0, 0)\<close>, which is the cell \<open>(1, 1)\<close> of the meshes for the
  resolution \<^verbatim>\<open>0.1\<close>. The distance is not zero, so it is kept; its square is
  \<open>2\<^sup>-\<^sup>1\<^sup>0\<^sup>6\<^sup>4\<close> and the weight \<open>2\<^sup>1\<^sup>0\<^sup>6\<^sup>4\<close> overflows to infinity: both sums are infinite
  and their quotient is NaN.
\<close>

theorem grid_cell_nan:
  "(case interpolate_idw near_stations (round64 0.1) 2 of
      Inr (Some (grid_lon, grid_lat, grid_values)) \<Rightarrow>
        grid_lon ! 1 ! 1 = Fin 0 \<and> grid_lat ! 1 ! 1 = Fin 0 \<and> grid_values ! 1 ! 1 = NaN
    | _ \<Rightarrow> False)"
proof -
  from near_grid_01 obtain gv where
    "interpolate_idw near_stations (round64 0.1) 2 =
      Inr (Some (replicate 13 (map (arange_item (Fin (- (3602879701896397 / 36028797018963968)))
                    (round64 0.1)) [0..<13]),
                 map (\<lambda>i. replicate 13 (arange_item (Fin (- (3602879701896397 / 36028797018963968)))
                    (round64 0.1) i)) [0..<13], gv))"
    and "gv ! 1 ! 1 = cell_value near_stations 2
          (arange_item (Fin (- (3602879701896397 / 36028797018963968))) (round64 0.1) 1)
          (arange_item (Fin (- (3602879701896397 / 36028797018963968))) (round64 0.1) 1)"
    by blast
  then show ?thesis using arange_01(2) cell_near by simp
qed

section \<open>The zero-distance substitution\<close>

text \<open>
  C7, as the code has it. \<^verbatim>\<open>interpolate_idw_point\<close> and the loop body of
  \<^verbatim>\<open>interpolate_idw\<close> weight the same distances: for a sample set with at least 3
  samples and any query point, each distance that is exactly zero has been replaced by
  the machine epsilon \<open>2\<^sup>-\<^sup>5\<^sup>2\<close> and every other distance is kept. No distance is zero
  then, and for a power from 0 to 2, the default 2.0 among them, no power of a distance
  is zero: the division \<open>1 / distance\<^sup>p\<close> is never a division by zero.
\<close>

theorem zero_distance_replaced:
  assumes "3 \<le> length data" and "0 \<le> pwr" and "pwr \<le> 2"
  shows "\<exists>dists. length dists = length data
          \<and> (\<forall>k<length data.
                dists ! k = (if np_dists data query_lon query_lat ! k = Fin 0 then Fin finfo_eps
                             else np_dists data query_lon query_lat ! k)
              \<and> dists ! k \<noteq> Fin 0
              \<and> np_power (dists ! k) pwr \<noteq> Fin 0)
          \<and> interpolate_idw_point data query_lon query_lat pwr =
              weighted_average (idw_weights dists pwr) (map sample.value data)
          \<and> (\<forall>grid_lon grid_lat i j grid_values.
                grid_lon ! i ! j = query_lon \<and> grid_lat ! i ! j = query_lat \<longrightarrow>
                idw_cell data (map sample.value data) pwr grid_lon grid_lat i j grid_values =
                  grid_values[i := (grid_values ! i)[j :=
                    weighted_average (idw_weights dists pwr) (map sample.value data)]])"
proof -
  let ?ds = "replace_zero (np_dists data query_lon query_lat)"
  have "length ?ds = length data" by (simp add: replace_zero_def np_dists_def)
  moreover have "\<forall>k<length data.
        ?ds ! k = (if np_dists data query_lon query_lat ! k = Fin 0 then Fin finfo_eps
                   else np_dists data query_lon query_lat ! k)
      \<and> ?ds ! k \<noteq> Fin 0 \<and> np_power (?ds ! k) pwr \<noteq> Fin 0"
    using replaced_nth [of _ data query_lon query_lat] far_from_zero_not_zero
      power_far_from_zero [OF _ assms(2,3)] by blast
  moreover have "interpolate_idw_point data query_lon query_lat pwr =
      weighted_average (idw_weights ?ds pwr) (map sample.value data)"
    using assms(1) by (auto simp: interpolate_idw_point_def Let_def)
  moreover have "\<forall>grid_lon grid_lat i j grid_values.
      grid_lon ! i ! j = query_lon \<and> grid_lat ! i ! j = query_lat \<longrightarrow>
      idw_cell data (map sample.value data) pwr grid_lon grid_lat i j grid_values =
        grid_values[i := (grid_values ! i)[j :=
          weighted_average (idw_weights ?ds pwr) (map sample.value data)]]"
    by (simp add: idw_cell_def Let_def)
  ultimately show ?thesis by blast
qed

theorem zero_distance_replaced_witness:
  "3 \<le> length example_stations \<and> (0::real) \<le> 2 \<and> (2::real) \<le> 2
   \<and> np_dists example_stations (Fin 0) (Fin 0) ! 0 = Fin 0
   \<and> (\<exists>dists. length dists = 3 \<and> dists ! 0 = Fin finfo_eps
        \<and> np_power (dists ! 0) 2 \<noteq> Fin 0
        \<and> interpolate_idw_point example_stations (Fin 0) (Fin 0) 2 =
            weighted_average (idw_weights dists 2) (map sample.value example_stations))"
proof -
  have d: "np_dists example_stations (Fin 0) (Fin 0) ! 0 = Fin 0"
    by (simp add: weights_power_21(1))
  from zero_distance_replaced [OF example_length(1), of 2 "Fin 0" "Fin 0"]
  obtain dists where len: "length dists = length example_stations"
    and each: "\<forall>k<length example_stations.
                dists ! k = (if np_dists example_stations (Fin 0) (Fin 0) ! k = Fin 0
                             then Fin finfo_eps
                             else np_dists example_stations (Fin 0) (Fin 0) ! k)
              \<and> dists ! k \<noteq> Fin 0
              \<and> np_power (dists ! k) 2 \<noteq> Fin 0"
    and res: "interpolate_idw_point example_stations (Fin 0) (Fin 0) 2 =
              weighted_average (idw_weights dists 2) (map sample.value example_stations)"
    by auto
  have k: "0 < length example_stations" by (simp add: example_length(2))
  from each [rule_format, OF k]
  have a: "dists ! 0 = (if np_dists example_stations (Fin 0) (Fin 0) ! 0 = Fin 0
                        then Fin finfo_eps
                        else np_dists example_stations (Fin 0) (Fin 0) ! 0)"
    and b: "np_power (dists ! 0) 2 \<noteq> Fin 0" by blast+
  from a d have "dists ! 0 = Fin finfo_eps" by simp
  with b len res d example_length show ?thesis by auto
qed

text \<open>
  The substituted value is not the smallest positive double: at a query on the first
  station the distance becomes \<open>2\<^sup>-\<^sup>5\<^sup>2\<close>, and the subnormal \<open>2\<^sup>-\<^sup>1\<^sup>0\<^sup>7\<^sup>4\<close> is positive
  and smaller. The machine epsilon is itself a double. With the power 21 its power
  \<open>2\<^sup>-\<^sup>1\<^sup>0\<^sup>9\<^sup>2\<close> underflows to zero: the weight is \<open>1 / 0\<close>, infinity, and the estimate
  NaN.
\<close>

theorem eps_not_smallest_and_power_underflows:
  "replace_zero (np_dists example_stations (Fin 0) (Fin 0)) ! 0 = Fin finfo_eps
   \<and> 0 < binary64_value 0 1 \<and> binary64_value 0 1 < finfo_eps
   \<and> np_power (replace_zero (np_dists example_stations (Fin 0) (Fin 0)) ! 0) 21 = Fin 0
   \<and> idw_weights (replace_zero (np_dists example_stations (Fin 0) (Fin 0))) 21 ! 0 = PInf
   \<and> interpolate_idw_point example_stations (Fin 0) (Fin 0) 21 = NaN"
proof -
  have "0 < binary64_value 0 1" "binary64_value 0 1 < finfo_eps"
    by (simp_all add: binary64_value_def finfo_eps_def)
  moreover have a: "replace_zero (np_dists example_stations (Fin 0) (Fin 0)) ! 0 = Fin finfo_eps"
    by (simp only: weights_power_21(1,2) nth_Cons_0)
  moreover have "np_power (replace_zero (np_dists example_stations (Fin 0) (Fin 0)) ! 0) 21
      = Fin 0"
    unfolding a by (rule weights_power_21(3))
  moreover have "idw_weights (replace_zero (np_dists example_stations (Fin 0) (Fin 0))) 21 ! 0
      = PInf"
    by (simp only: weights_power_21(1,2,4) nth_Cons_0)
  ultimately show ?thesis using weights_power_21(5) by blast
qed

lemma eps_is_double: "binary64_value 971 0 = finfo_eps"
  by (simp add: binary64_value_def finfo_eps_def)

section \<open>The classifier\<close>

text \<open>
  At the breakpoints 12, 35.4 and 150.4 the score falls into the lower band, and above
  the last breakpoint the score is the constant 201.
\<close>

lemma classifier_at_breakpoints:
  "pm25_to_aqi parse (PyFloat (round64 12)) = Inr 50 \<and> get_aqi_alert (of_int 50) = Good"
  "pm25_to_aqi parse (PyFloat (round64 35.4)) = Inr 99 \<and> get_aqi_alert (of_int 99) = Moderate"
  "pm25_to_aqi parse (PyFloat (round64 150.4)) = Inr 199
   \<and> get_aqi_alert (of_int 199) = Unhealthy"
  "pm25_to_aqi parse (PyFloat (round64 1000)) = Inr 201
   \<and> get_aqi_alert (of_int 201) = Unhealthy"
  by (simp_all add: pm25_to_aqi_def aqi_branches_def np_sub_def get_aqi_alert_def r64)

lemma score_clamped_above_last_breakpoint:
  "151 \<le> x \<Longrightarrow> pm25_to_aqi parse (PyFloat (Fin x)) = Inr 201"
  by (simp add: pm25_to_aqi_def aqi_branches_def r64)

text \<open>
  C3. The value 12.0000001 is meant to classify as moderate. It enters the second
  branch, whose line starts from 12.1 rather than 12: the score is
  \<open>int(50 + (50 / 23.4) * (12.0000001 - 12.1)) = int(49.78...) = 49\<close>, below the score
  50 of the value 12, and \<^verbatim>\<open>get_aqi_alert\<close> answers "Good". The click handler rounds the
  same number to 50 and answers "Good" as well.
\<close>

theorem just_above_breakpoint_is_good:
  "pm25_to_aqi parse (PyFloat (round64 12.0000001)) = Inr 49
   \<and> get_aqi_alert (of_int 49) = Good
   \<and> js_alert (js_aqi (round64 12.0000001)) = Good"
  by (simp add: pm25_to_aqi_def aqi_branches_def js_aqi_def np_sub_def get_aqi_alert_def
      js_alert_def r64)

text \<open>
  Whatever \<^verbatim>\<open>float\<close> rejects with \<^verbatim>\<open>TypeError\<close> or \<^verbatim>\<open>ValueError\<close> (\<^verbatim>\<open>None\<close>, an object
  that is no number, a string that does not parse) scores 0; negative infinity passes
  \<^verbatim>\<open>float\<close> and makes \<^verbatim>\<open>int\<close> raise \<^verbatim>\<open>OverflowError\<close>, which the handler does not
  catch, and so does an integer beyond the largest double inside \<^verbatim>\<open>float\<close>.
\<close>

lemma rejected_by_float_scores_zero:
  "py_float parse v = Inl ValueError \<or> py_float parse v = Inl TypeError \<Longrightarrow>
   pm25_to_aqi parse v = Inr 0"
  by (auto simp: pm25_to_aqi_def)

lemma none_and_objects_score_zero:
  "pm25_to_aqi parse PyNone = Inr 0" "pm25_to_aqi parse PyObject = Inr 0"
  "parse s = None \<Longrightarrow> pm25_to_aqi parse (PyStr s) = Inr 0"
  by (simp_all add: pm25_to_aqi_def)

lemma negative_infinity_raises:
  "pm25_to_aqi parse (PyFloat NInf) = Inl OverflowError"
  by (simp add: pm25_to_aqi_def aqi_branches_def r64)

lemma huge_integer_raises: "pm25_to_aqi parse (PyInt (2 ^ 1024)) = Inl OverflowError"
  by (simp add: pm25_to_aqi_def r64)

text \<open>
  C9. A missing value is meant to score 0. NaN, the missing value of a pandas column
  and the "no estimate" of \<^verbatim>\<open>interpolate_idw_point\<close>, passes \<^verbatim>\<open>float\<close>, fails all four
  comparisons and reaches the last branch: the score is 201 and the message
  "Unhealthy".
\<close>

theorem nan_classified_unhealthy:
  "pm25_to_aqi parse (PyFloat NaN) = Inr 201
   \<and> get_aqi_alert (of_int 201) = Unhealthy"
  by (simp add: pm25_to_aqi_def aqi_branches_def get_aqi_alert_def)

section \<open>The two runtimes\<close>

text \<open>
  The loop of the click handler computes, for at least 3 stations, the estimate of
  \<^verbatim>\<open>interpolate_idw_point\<close> with the power 2: distance formula, zero substitution and
  exponent agree, and so does the order of the additions as long as \<^verbatim>\<open>np.sum\<close> adds
  from left to right.
\<close>

lemma np_power_two: "np_power x 2 = np_square x"
proof (cases x)
  case (Fin b)
  consider "0 < b" | "b = 0" | "b < 0" by linarith
  then show ?thesis
  proof cases
    case 1
    then have "b powr 2 = b * b" by (simp add: power2_eq_square)
    with 1 Fin show ?thesis by (simp add: np_square_def)
  next
    case 2
    with Fin show ?thesis by (simp add: np_square_def)
  next
    case 3
    have "\<lfloor>2::real\<rfloor> = 2" by simp
    with 3 Fin show ?thesis by (simp add: np_square_def power2_eq_square)
  qed
qed (simp_all add: np_square_def)

lemma js_loop:
  "fold (js_station qlat qlng) data (a, b) =
     (fold (\<lambda>x acc. np_add acc x)
        (idw_weights (replace_zero (np_dists data qlng qlat)) 2) a,
      fold (\<lambda>x acc. np_add acc x)
        (map (\<lambda>(w, v). np_mul w (Fin v))
          (zip (idw_weights (replace_zero (np_dists data qlng qlat)) 2)
               (map sample.value data))) b)"
  by (induction data arbitrary: a b)
     (simp_all add: js_station_def np_dists_def replace_zero_def idw_weights_def
        np_power_two Let_def)

lemma js_pm25_is_point_estimate:
  assumes "3 \<le> length data"
  shows "js_pm25 data qlat qlng = interpolate_idw_point data qlng qlat 2"
  using assms
  by (auto simp: js_pm25_def js_loop interpolate_idw_point_def weighted_average_def
      np_sum_def Let_def)

text \<open>
  C8. The score is meant to be rounded to the nearest integer in both runtimes. At the
  value 35.4 the score before conversion is \<open>50 + (50 / 23.4) * 23.3 = 99.78...\<close>:
  \<^verbatim>\<open>pm25_to_aqi\<close> truncates it with \<^verbatim>\<open>int\<close> to 99, the click handler rounds it with
  \<^verbatim>\<open>Math.round\<close> to 100.
\<close>

theorem python_truncates_js_rounds:
  "pm25_to_aqi parse (PyFloat (round64 35.4)) = Inr 99 \<and> js_aqi (round64 35.4) = Fin 100"
  by (simp add: pm25_to_aqi_def aqi_branches_def js_aqi_def np_sub_def r64)

text \<open>
  C2. The two runtimes are meant to agree within a relative tolerance of \<open>10\<^sup>-\<^sup>6\<close>. For
  three stations that all report 35.4, queried at the first station with the power 2,
  both estimate 35.4; the Python classifier scores 99 and the click handler 100.
\<close>

theorem cross_runtime_scores_differ:
  "interpolate_idw_point uniform_stations (Fin 0) (Fin 0) 2 = round64 35.4
   \<and> js_pm25 uniform_stations (Fin 0) (Fin 0) = round64 35.4
   \<and> pm25_to_aqi parse (PyFloat (interpolate_idw_point uniform_stations (Fin 0) (Fin 0) 2))
       = Inr 99
   \<and> js_aqi (js_pm25 uniform_stations (Fin 0) (Fin 0)) = Fin 100"
  by (simp add: point_uniform js_uniform d35_4_literal [symmetric]
      pm25_to_aqi_def aqi_branches_def js_aqi_def np_sub_def r64)

end
